theory Spec2Isabelle
  imports Complex_Main "HOL-Library.Log_Nat"
begin

section \<open>Data model (backend/models)\<close>

text \<open>
  Documents of the four collections, with the field names of the Mongoose schemas.
  An ObjectId is a natural number. A JavaScript \<open>Date\<close> is its number of
  milliseconds since the epoch. A string field that may be absent (\<open>undefined\<close>)
  is a \<open>string option\<close>.
\<close>

type_synonym objectId = nat

datatype role = Patient | Doctor | Admin

record user =
  role :: role
  isApproved :: bool
  isActive :: bool

datatype weekday = Sunday | Monday | Tuesday | Wednesday | Thursday | Friday | Saturday

record timeSlot =
  startTime :: string
  endTime :: string

record daySlot = timeSlot +
  day :: weekday

text \<open>\<open>timeSlotSchema\<close>: one entry of a doctor's weekly availability.\<close>

record availabilitySlot = daySlot +
  isAvailable :: bool

text \<open>One element of the \<open>availableSlots\<close> array of the available-slots response.\<close>

record availableSlot = daySlot +
  isBooked :: bool

text \<open>
  \<open>doctorSchema\<close>. The document is stored under its \<open>userId\<close>, which the
  schema declares unique. \<open>rating\<close> is a JavaScript Number holding a fraction: it is
  modelled as the rational value of the binary64 number. \<open>totalRatings\<close> and
  \<open>totalAppointments\<close> hold integers.
\<close>

record doctor =
  availability :: "availabilitySlot list"
  rating :: rat
  totalRatings :: int
  totalAppointments :: int

datatype status = Pending | Confirmed | Completed | Cancelled

record appointment =
  apptId :: objectId
  patientId :: objectId
  doctorId :: objectId
  appointmentDate :: int
  timeSlot :: timeSlot
  status :: status
  symptoms :: "string option"
  notes' :: "string option"
  prescription :: string
  cancelReason :: "string option"

record feedback =
  feedbackId :: objectId
  fbAppointmentId :: objectId
  fbPatientId :: objectId
  fbDoctorId :: objectId
  fbRating :: int
  fbComment :: "string option"

record db =
  users :: "objectId \<rightharpoonup> user"
  doctors :: "objectId \<rightharpoonup> doctor"
  appointments :: "appointment list"
  feedbacks :: "feedback list"

text \<open>The authenticated user that the \<open>protect\<close> middleware puts in \<open>req.user\<close>.\<close>

record reqUser =
  uid :: objectId
  urole :: role

text \<open>
  The responses other than success, named as in the specification's error taxonomy.
  In the routes each is an HTTP status with a message:
  \<^item> \<open>ValidationError\<close>: 400 with the express-validator \<open>errors\<close> array;
  \<^item> \<open>InvalidInputError\<close>: 400 \<open>Date is required\<close>;
  \<^item> \<open>NotFoundError\<close>: 404;
  \<^item> \<open>ForbiddenError\<close>: 403;
  \<^item> \<open>DoctorUnavailableError\<close>: 400 \<open>Doctor is not approved yet\<close>;
  \<^item> \<open>PastDateError\<close>: 400 \<open>Cannot book appointments in the past\<close>;
  \<^item> \<open>SlotAlreadyBookedError\<close>: 400 \<open>This time slot is already booked\<close>;
  \<^item> \<open>InvalidStateTransitionError\<close>: 400 \<open>Cannot cancel ... appointment\<close> and
    400 \<open>Only confirmed appointments can be completed\<close>;
  \<^item> \<open>NotCompletedError\<close>: 400 \<open>Can only rate completed appointments\<close>;
  \<^item> \<open>DuplicateFeedbackError\<close>: 400 \<open>Feedback already submitted for this appointment\<close>;
  \<^item> \<open>ServerError\<close>: 500, the \<open>catch\<close> block of a route.
\<close>

datatype error =
    ValidationError
  | InvalidInputError
  | NotFoundError
  | ForbiddenError
  | DoctorUnavailableError
  | PastDateError
  | SlotAlreadyBookedError
  | InvalidStateTransitionError
  | NotCompletedError
  | DuplicateFeedbackError
  | ServerError

text \<open>
  A route handler takes the database and returns its response together with the
  database it leaves behind: a handler that fails after a write leaves that write.
\<close>

type_synonym 'a response = "(error + 'a) \<times> db"

section \<open>Helpers: schema setters, identifiers, middleware\<close>

text \<open>
  \<open>trim: true\<close> of a schema string: \<open>String.prototype.trim\<close>, here on the ASCII
  white space characters (tab, line feed, vertical tab, form feed, carriage return,
  space).
\<close>

definition isWhiteSpace :: "char \<Rightarrow> bool" where
  "isWhiteSpace c \<longleftrightarrow>
     c = CHR 0x09 \<or> c = CHR 0x0A \<or> c = CHR 0x0B \<or> c = CHR 0x0C \<or> c = CHR 0x0D \<or> c = CHR 0x20"

definition trim :: "string \<Rightarrow> string" where
  "trim s = rev (dropWhile isWhiteSpace (rev (dropWhile isWhiteSpace s)))"

text \<open>A new document gets an identifier that no document of the collection has.\<close>

definition freshId :: "objectId list \<Rightarrow> objectId" where
  "freshId ids = Suc (fold max ids 0)"

text \<open>
  Modelled from the spec: the \<open>authorize\<close> middleware (\<open>middleware/auth.js\<close> is not
  among the sources). The routes mount it as \<open>authorize('patient')\<close> and
  \<open>authorize('doctor')\<close> on the endpoints documented as "Patient only" and
  "Doctor only"; the specification gives the failure as \<open>ForbiddenError\<close>.
\<close>

definition authorize :: "role \<Rightarrow> reqUser \<Rightarrow> bool" where
  "authorize r u \<longleftrightarrow> urole u = r"

text \<open>\<open>Appointment.findById\<close> and \<open>appointment.save()\<close> of a loaded document.\<close>

definition findAppointment :: "db \<Rightarrow> objectId \<Rightarrow> appointment option" where
  "findAppointment d i = find (\<lambda>a. apptId a = i) (appointments d)"

fun saveAppointment :: "appointment \<Rightarrow> appointment list \<Rightarrow> appointment list" where
  "saveAppointment a [] = []"
| "saveAppointment a (b # bs) =
     (if apptId b = apptId a then a # bs else b # saveAppointment a bs)"

section \<open>Appointment routes (routes/appointments.js)\<close>

subsection \<open>POST /api/appointments\<close>

text \<open>
  The request body. \<open>doctorId = None\<close> is an empty or missing \<open>doctorId\<close>;
  \<open>appointmentDate = None\<close> is a value that \<open>isISO8601()\<close> rejects, and
  \<open>Some t\<close> a date string that \<open>new Date\<close> reads as the instant \<open>t\<close>.
\<close>

record bookingBody =
  bodyDoctorId :: "objectId option"
  bodyAppointmentDate :: "int option"
  bodyTimeSlot :: timeSlot
  bodySymptoms :: "string option"

definition isActiveStatus :: "status \<Rightarrow> bool" where
  "isActiveStatus s \<longleftrightarrow> s = Pending \<or> s = Confirmed"

text \<open>
  The key of the compound unique index
  \<open>{ doctorId: 1, appointmentDate: 1, 'timeSlot.startTime': 1 }\<close>.
\<close>

definition slotKey :: "appointment \<Rightarrow> objectId \<times> int \<times> string" where
  "slotKey a = (doctorId a, appointmentDate a, startTime (timeSlot a))"

text \<open>
  \<open>Appointment.create\<close>: the unique index rejects a document whose key is the key of
  any stored appointment, whatever its status (MongoDB error code 11000, which the
  \<open>catch\<close> block of the route answers with "This time slot is already booked").
\<close>

definition createAppointment :: "appointment \<Rightarrow> appointment list \<rightharpoonup> appointment list" where
  "createAppointment a as =
     (if slotKey a \<in> set (map slotKey as) then None else Some (as @ [a]))"

definition bookAppointment :: "db \<Rightarrow> int \<Rightarrow> reqUser \<Rightarrow> bookingBody \<Rightarrow> appointment response" where
  "bookAppointment d now u body =
     (if \<not> authorize Patient u then (Inl ForbiddenError, d)
      else (case bodyDoctorId body of
        None \<Rightarrow> (Inl ValidationError, d)
      | Some did \<Rightarrow>
       (case bodyAppointmentDate body of
          None \<Rightarrow> (Inl ValidationError, d)
        | Some appointmentDateTime \<Rightarrow>
            if startTime (bodyTimeSlot body) = [] \<or> endTime (bodyTimeSlot body) = []
            then (Inl ValidationError, d)
            else (case doctors d did of
              None \<Rightarrow> (Inl NotFoundError, d)
            | Some doc \<Rightarrow>
               (case users d did of
                  None \<Rightarrow> (Inl ServerError, d)
                | Some account \<Rightarrow>
                    if \<not> isApproved account then (Inl DoctorUnavailableError, d)
                    else if appointmentDateTime < now then (Inl PastDateError, d)
                    else if find (\<lambda>a. doctorId a = did
                                    \<and> appointmentDate a = appointmentDateTime
                                    \<and> startTime (timeSlot a) = startTime (bodyTimeSlot body)
                                    \<and> isActiveStatus (status a)) (appointments d) \<noteq> None
                    then (Inl SlotAlreadyBookedError, d)
                    else
                      (let appt = \<lparr> apptId = freshId (map apptId (appointments d)),
                                   patientId = uid u,
                                   doctorId = did,
                                   appointmentDate = appointmentDateTime,
                                   timeSlot = bodyTimeSlot body,
                                   status = Confirmed,
                                   symptoms = map_option trim (bodySymptoms body),
                                   notes' = None,
                                   prescription = [],
                                   cancelReason = None \<rparr>
                       in (case createAppointment appt (appointments d) of
                           None \<Rightarrow> (Inl SlotAlreadyBookedError, d)
                         | Some as \<Rightarrow>
                             (Inr appt,
                              d\<lparr> appointments := as,
                                 doctors := (doctors d)(did \<mapsto>
                                   doc\<lparr> totalAppointments := totalAppointments doc + 1 \<rparr>) \<rparr>))))))))"

subsection \<open>PUT /api/appointments/:id/cancel\<close>

text \<open>
  The authorization test of the cancel route on the populated document. A populated
  reference whose user is gone is \<open>null\<close>, and reading \<open>_id\<close> of it throws, which the
  route answers with 500: the result is \<open>None\<close> then. The conjunction short-circuits
  as \<open>&&\<close> does.
\<close>

definition cancelNotAuthorized :: "db \<Rightarrow> reqUser \<Rightarrow> appointment \<Rightarrow> bool option" where
  "cancelNotAuthorized d u a =
     (if urole u = Admin then Some False
      else (case users d (patientId a) of
        None \<Rightarrow> None
      | Some _ \<Rightarrow>
          if patientId a = uid u then Some False
          else (case users d (doctorId a) of
            None \<Rightarrow> None
          | Some _ \<Rightarrow> Some (doctorId a \<noteq> uid u))))"

definition cancelAppointment ::
  "db \<Rightarrow> reqUser \<Rightarrow> objectId \<Rightarrow> string option \<Rightarrow> appointment response" where
  "cancelAppointment d u i reason =
     (case findAppointment d i of
        None \<Rightarrow> (Inl NotFoundError, d)
      | Some a \<Rightarrow>
         (case cancelNotAuthorized d u a of
            None \<Rightarrow> (Inl ServerError, d)
          | Some notAuthorized \<Rightarrow>
              if notAuthorized then (Inl ForbiddenError, d)
              else if status a = Cancelled \<or> status a = Completed
              then (Inl InvalidStateTransitionError, d)
              else
                (let a' = a\<lparr> status := Cancelled, cancelReason := map_option trim reason \<rparr>
                 in (Inr a', d\<lparr> appointments := saveAppointment a' (appointments d) \<rparr>))))"

subsection \<open>PUT /api/appointments/:id/complete\<close>

text \<open>
  \<open>if (notes) appointment.notes = notes\<close>: an absent or empty string is falsy and
  leaves the field as it is.
\<close>

definition setIfTruthy :: "string option \<Rightarrow> 'a \<Rightarrow> (string \<Rightarrow> 'a) \<Rightarrow> 'a" where
  "setIfTruthy v old assign =
     (case v of None \<Rightarrow> old | Some s \<Rightarrow> if s = [] then old else assign s)"

definition completeAppointment ::
  "db \<Rightarrow> reqUser \<Rightarrow> objectId \<Rightarrow> string option \<Rightarrow> string option \<Rightarrow> appointment response" where
  "completeAppointment d u i newNotes newPrescription =
     (if \<not> authorize Doctor u then (Inl ForbiddenError, d)
      else (case findAppointment d i of
        None \<Rightarrow> (Inl NotFoundError, d)
      | Some a \<Rightarrow>
          if doctorId a \<noteq> uid u then (Inl ForbiddenError, d)
          else if status a \<noteq> Confirmed then (Inl InvalidStateTransitionError, d)
          else
            (let a1 = a\<lparr> status := Completed \<rparr>;
                 a2 = setIfTruthy newNotes a1 (\<lambda>s. a1\<lparr> notes' := Some (trim s) \<rparr>);
                 a3 = setIfTruthy newPrescription a2 (\<lambda>s. a2\<lparr> prescription := s \<rparr>)
             in (Inr a3, d\<lparr> appointments := saveAppointment a3 (appointments d) \<rparr>))))"

subsection \<open>GET /api/appointments/doctor/:doctorId/available-slots\<close>

text \<open>
  \<open>new Date(date)\<close> of the query string is a valid instant or \<open>Invalid Date\<close>.
  The weekday name of an instant (\<open>toLocaleDateString('en-US', { weekday: 'long' })\<close>)
  and the instant one calendar day later (\<open>setDate(getDate() + 1)\<close>) are taken in the
  time zone of the server. The zone is a parameter of the route: its offset from UTC
  in milliseconds, east positive, for a zone whose offset does not change (no
  daylight-saving transition), so that the same local time one calendar day later is
  86400000 milliseconds later. \<open>utc\<close> is the zone of a server that runs in UTC.
  \<open>localDay z t\<close> is the calendar date of the instant \<open>t\<close> in the zone \<open>z\<close>, as its
  number of days since 1 January 1970, which was a Thursday.
\<close>

datatype jsDate = InvalidDate | DateMs int

type_synonym zone = int

definition utc :: zone where
  "utc = 0"

definition localDay :: "zone \<Rightarrow> int \<Rightarrow> int" where
  "localDay z t = (t + z) div 86400000"

definition weekdayOf :: "zone \<Rightarrow> int \<Rightarrow> weekday" where
  "weekdayOf z t =
     [Thursday, Friday, Saturday, Sunday, Monday, Tuesday, Wednesday] ! nat (localDay z t mod 7)"

definition nextDay :: "int \<Rightarrow> int" where
  "nextDay t = t + 86400000"

definition bookedSlots :: "db \<Rightarrow> objectId \<Rightarrow> int \<Rightarrow> string list" where
  "bookedSlots d did t =
     map (\<lambda>apt. startTime (timeSlot apt))
       (filter (\<lambda>a. doctorId a = did
                   \<and> t \<le> appointmentDate a \<and> appointmentDate a < nextDay t
                   \<and> isActiveStatus (status a)) (appointments d))"

definition availableSlots ::
  "zone \<Rightarrow> db \<Rightarrow> objectId \<Rightarrow> jsDate option \<Rightarrow> availableSlot list response" where
  "availableSlots z d did date =
     (case date of
        None \<Rightarrow> (Inl InvalidInputError, d)
      | Some dt \<Rightarrow>
         (case doctors d did of
            None \<Rightarrow> (Inl NotFoundError, d)
          | Some doc \<Rightarrow>
             (case dt of
                InvalidDate \<Rightarrow> (Inr [], d)
              | DateMs t \<Rightarrow>
                 (let dayAvailability =
                        filter (\<lambda>slot. day slot = weekdayOf z t \<and> isAvailable slot)
                          (availability doc)
                  in if dayAvailability = [] then (Inr [], d)
                     else (Inr (map (\<lambda>slot. \<lparr> startTime = startTime slot,
                                             endTime = endTime slot,
                                             day = day slot,
                                             isBooked = (startTime slot \<in> set (bookedSlots d did t)) \<rparr>)
                                 dayAvailability), d)))))"

section \<open>JavaScript Number arithmetic\<close>

text \<open>
  The rating arithmetic of \<open>routes/feedback.js\<close> runs on JavaScript Numbers, that
  is IEEE 754 binary64 with rounding to nearest, ties to even. A finite Number is
  modelled by its rational value, and every arithmetic operator computes the exact
  result and rounds it to a Number with \<open>fl\<close>: to 53 significant bits. The exponent
  range is not bounded: the magnitudes that the rating arithmetic produces are at
  most five times the rating count, far inside the range of binary64. A division by
  zero, whose result is \<open>NaN\<close> or an infinity, is handled where it can occur.
  Integers (the stored ratings from 1 to 5, and the rating counts, which stay far
  below \<open>2 ^ 53\<close>) are Numbers exactly and are modelled as integers. Negative zero is
  not kept apart from zero: the operations used here give the same result on both,
  and both have the string \<open>"0"\<close>.
\<close>

definition roundTiesToEven :: "rat \<Rightarrow> int" where
  "roundTiesToEven x =
     (let f = \<lfloor>x\<rfloor>; r = x - of_int f
      in if r < 1/2 then f else if 1/2 < r then f + 1 else if even f then f else f + 1)"

text \<open>For \<open>x > 0\<close>: the exponent \<open>e\<close> with \<open>2 powi e \<le> x < 2 powi (e + 1)\<close>.\<close>

definition ilog2 :: "rat \<Rightarrow> int" where
  "ilog2 x =
     (if 1 \<le> x then bitlen \<lfloor>x\<rfloor> - 1
      else (let b = bitlen \<lfloor>1 / x\<rfloor> in if 2 powi (1 - b) \<le> x then 1 - b else - b))"

definition fl :: "rat \<Rightarrow> rat" where
  "fl x =
     (if x = 0 then 0
      else (let e = ilog2 \<bar>x\<bar> - 52
            in sgn x * of_int (roundTiesToEven (\<bar>x\<bar> / 2 powi e)) * 2 powi e))"

definition fmul :: "rat \<Rightarrow> rat \<Rightarrow> rat" where
  "fmul a b = fl (a * b)"

definition fadd :: "rat \<Rightarrow> rat \<Rightarrow> rat" where
  "fadd a b = fl (a + b)"

definition fsub :: "rat \<Rightarrow> rat \<Rightarrow> rat" where
  "fsub a b = fl (a - b)"

text \<open>The quotient for a divisor other than zero.\<close>

definition fdiv :: "rat \<Rightarrow> rat \<Rightarrow> rat" where
  "fdiv a b = fl (a / b)"

text \<open>\<open>Math.round\<close>: the nearest integer, a tie going up.\<close>

definition Math_round :: "rat \<Rightarrow> int" where
  "Math_round x = \<lfloor>x + 1/2\<rfloor>"

section \<open>JavaScript values of a request body: Numbers and strings\<close>

text \<open>
  The \<open>rating\<close> of a feedback request is whatever JSON value the body holds. The
  validator \<open>isInt\<close> accepts Numbers and strings alike, and the routes do not convert
  what it accepted (there is no \<open>toInt()\<close>): the arithmetic on the aggregate receives
  the Number or the string itself. The values modelled are the JSON numbers and the
  JSON strings; \<open>null\<close>, booleans, arrays and objects never reach the aggregate
  (the validator or the schema's cast to Number rejects them).
\<close>

datatype jsValue = JNumber rat | JString string

subsection \<open>Number to string\<close>

definition isDigit :: "char \<Rightarrow> bool" where
  "isDigit c \<longleftrightarrow> c \<in> set ''0123456789''"

text \<open>The decimal digits of an integer that is not negative.\<close>

function digitsOf :: "int \<Rightarrow> string" where
  "digitsOf n = (if n < 10 then [''0123456789'' ! nat n]
                 else digitsOf (n div 10) @ [''0123456789'' ! nat (n mod 10)])"
  by pat_completeness auto
termination
  by (relation "measure nat") auto

declare digitsOf.simps [simp del]

text \<open>For \<open>x > 0\<close>: the exponent \<open>e\<close> with \<open>10 powi e \<le> x < 10 powi (e + 1)\<close>.\<close>

definition ilog10 :: "rat \<Rightarrow> int" where
  "ilog10 x =
     (if 1 \<le> x then int (length (digitsOf \<lfloor>x\<rfloor>)) - 1
      else (let b = int (length (digitsOf \<lfloor>1 / x\<rfloor>))
            in if 10 powi (1 - b) \<le> x then 1 - b else - b))"

text \<open>
  \<open>Number::toString\<close> of ECMAScript, radix 10, for a Number \<open>x > 0\<close>: integers
  \<open>n\<close>, \<open>k\<close> and \<open>s\<close> with \<open>k \<ge> 1\<close>, \<open>10 ^ (k - 1) \<le> s < 10 ^ k\<close>, such that
  \<open>s * 10 powi (n - k)\<close> rounds to \<open>x\<close>, and \<open>k\<close> as small as possible; of two such
  \<open>s\<close> the one whose decimal is closer to \<open>x\<close>, and the even one when both are equally
  close. \<open>candidate x n k\<close> is the decimal with \<open>k\<close> digits, if there is one, as the
  pair \<open>(s, n)\<close>: the only integers \<open>s\<close> to try are the two next to
  \<open>x / 10 powi (n - k)\<close>, and the upper one may be \<open>10 ^ k\<close>, which is the single
  digit 1 with \<open>n + 1\<close>. Seventeen digits are enough for every binary64 number.
\<close>

definition candidate :: "rat \<Rightarrow> int \<Rightarrow> int \<Rightarrow> (int \<times> int) option" where
  "candidate x n k =
     (let q = n - k;
          lo = \<lfloor>x / 10 powi q\<rfloor>;
          hi = lo + 1;
          okLo = (fl (of_int lo * 10 powi q) = x);
          okHi = (fl (of_int hi * 10 powi q) = x);
          dLo = x - of_int lo * 10 powi q;
          dHi = of_int hi * 10 powi q - x
      in if okLo \<and> (\<not> okHi \<or> dLo < dHi \<or> (dLo = dHi \<and> even lo)) then Some (lo, n)
         else if okHi then (if of_int hi = (10::rat) powi k then Some (1, n + 1) else Some (hi, n))
         else None)"

fun firstSome :: "('a \<Rightarrow> 'b option) \<Rightarrow> 'a list \<Rightarrow> 'b option" where
  "firstSome f [] = None"
| "firstSome f (x # xs) = (case f x of None \<Rightarrow> firstSome f xs | Some y \<Rightarrow> Some y)"

definition decimalOf :: "rat \<Rightarrow> int \<times> int" where
  "decimalOf x =
     (let n = ilog10 x + 1
      in case firstSome (candidate x n)
                [1, 2, 3, 4, 5, 6, 7, 8, 9, 10, 11, 12, 13, 14, 15, 16, 17] of
           Some sn \<Rightarrow> sn
         | None \<Rightarrow> (\<lfloor>x / 10 powi (n - 17)\<rfloor>, n))"

text \<open>
  The string of the decimal \<open>s * 10 powi (n - k)\<close>, where \<open>k\<close> is the number of digits
  of \<open>s\<close>: plain digits, digits with a decimal point, or the exponent form outside
  \<open>- 6 < n \<le> 21\<close>.
\<close>

definition render :: "int \<times> int \<Rightarrow> string" where
  "render sn =
     (let digits = digitsOf (fst sn); k = int (length digits); n = snd sn
      in if k \<le> n \<and> n \<le> 21 then digits @ replicate (nat (n - k)) CHR ''0''
         else if 0 < n \<and> n \<le> 21 then take (nat n) digits @ ''.'' @ drop (nat n) digits
         else if - 6 < n \<and> n \<le> 0 then ''0.'' @ replicate (nat (- n)) CHR ''0'' @ digits
         else (if k = 1 then digits else take 1 digits @ ''.'' @ drop 1 digits)
              @ ''e'' @ (if 0 < n - 1 then ''+'' else ''-'') @ digitsOf \<bar>n - 1\<bar>)"

definition Number_toString :: "rat \<Rightarrow> string" where
  "Number_toString x =
     (if x = 0 then ''0''
      else if x < 0 then ''-'' @ render (decimalOf (- x))
      else render (decimalOf x))"

subsection \<open>String to Number\<close>

definition digitValue :: "char \<Rightarrow> int" where
  "digitValue c = int (length (takeWhile (\<lambda>d. d \<noteq> c) ''0123456789''))"

definition decimalValue :: "string \<Rightarrow> int" where
  "decimalValue ds = foldl (\<lambda>a c. 10 * a + digitValue c) 0 ds"

definition isSign :: "char \<Rightarrow> bool" where
  "isSign c \<longleftrightarrow> c = CHR ''+'' \<or> c = CHR ''-''"

text \<open>A string with an optional sign in front: the sign as 1 or -1, and the rest.\<close>

definition signOf :: "string \<Rightarrow> int" where
  "signOf s = (if s \<noteq> [] \<and> hd s = CHR ''-'' then - 1 else 1)"

definition unsigned :: "string \<Rightarrow> string" where
  "unsigned s = (if s \<noteq> [] \<and> isSign (hd s) then tl s else s)"

text \<open>
  The mathematical value of an unsigned decimal literal: digits, an optional point
  with digits after it, an optional exponent part; at least one digit before the
  exponent part. \<open>None\<close> is a string that is no such literal.
\<close>

definition exponentValue :: "string \<Rightarrow> int option" where
  "exponentValue s =
     (if s = [] then Some 0
      else if hd s = CHR ''e'' \<or> hd s = CHR ''E''
      then (let ds = unsigned (tl s)
            in if ds \<noteq> [] \<and> list_all isDigit ds
               then Some (signOf (tl s) * decimalValue ds) else None)
      else None)"

definition unsignedDecimal :: "string \<Rightarrow> rat option" where
  "unsignedDecimal s =
     (let ip = takeWhile isDigit s;
          r1 = dropWhile isDigit s;
          point = (r1 \<noteq> [] \<and> hd r1 = CHR ''.'');
          fp = (if point then takeWhile isDigit (tl r1) else []);
          r2 = (if point then dropWhile isDigit (tl r1) else r1)
      in if ip = [] \<and> fp = [] then None
         else (case exponentValue r2 of
                 None \<Rightarrow> None
               | Some e \<Rightarrow>
                   Some (of_int (decimalValue (ip @ fp)) * 10 powi (e - int (length fp)))))"

text \<open>
  \<open>StringToNumber\<close> of ECMAScript for decimal literals: white space around the
  literal is dropped, the empty string is 0, and the value of the literal is rounded
  to a Number. \<open>None\<close> is \<open>NaN\<close>. The strings that the rating arithmetic converts
  are a Number's string followed by a sign and digits, so the other literals of
  \<open>StringToNumber\<close> (\<open>Infinity\<close>, and the hexadecimal, octal and binary forms) do
  not occur.
\<close>

definition StringToNumber :: "string \<Rightarrow> rat option" where
  "StringToNumber str =
     (let s = trim str
      in if s = [] then Some 0
         else map_option (\<lambda>v. fl (of_int (signOf s) * v)) (unsignedDecimal (unsigned s)))"

subsection \<open>The operators on a rating\<close>

text \<open>\<open>ToNumber\<close> of a value; \<open>None\<close> is \<open>NaN\<close>.\<close>

definition ToNumber :: "jsValue \<Rightarrow> rat option" where
  "ToNumber v = (case v of JNumber x \<Rightarrow> Some x | JString s \<Rightarrow> StringToNumber s)"

text \<open>
  \<open>a + v\<close> for a Number \<open>a\<close>: the sum when \<open>v\<close> is a Number, and the concatenation
  of the string of \<open>a\<close> with \<open>v\<close> when \<open>v\<close> is a string.
\<close>

definition jsPlus :: "rat \<Rightarrow> jsValue \<Rightarrow> jsValue" where
  "jsPlus a v =
     (case v of JNumber b \<Rightarrow> JNumber (fadd a b) | JString s \<Rightarrow> JString (Number_toString a @ s))"

text \<open>
  \<open>v / b\<close> for a Number \<open>b\<close>: \<open>v\<close> is converted to a Number. \<open>None\<close> is a result
  that is \<open>NaN\<close> or an infinity.
\<close>

definition jsDivide :: "jsValue \<Rightarrow> rat \<Rightarrow> rat option" where
  "jsDivide v b =
     (case ToNumber v of
        None \<Rightarrow> None
      | Some a \<Rightarrow> if b = 0 then None else Some (fdiv a b))"

text \<open>
  \<open>v !== n\<close> for a Number \<open>n\<close>: a string is never strictly equal to a Number.
\<close>

definition strictlyDiffers :: "jsValue \<Rightarrow> rat \<Rightarrow> bool" where
  "strictlyDiffers v n = (case v of JNumber x \<Rightarrow> x \<noteq> n | JString s \<Rightarrow> True)"

text \<open>
  \<open>isInt({ min: 1, max: 5 })\<close> of express-validator, which tests the string of the
  value: an optional sign and decimal digits (leading zeros allowed) whose Number is
  within the bounds. The string of a Number has this form exactly if the Number is an
  integer of magnitude below \<open>10 ^ 21\<close>.
\<close>

definition isInt :: "jsValue \<Rightarrow> bool" where
  "isInt v =
     (case v of
        JNumber x \<Rightarrow> of_int \<lfloor>x\<rfloor> = x \<and> 1 \<le> x \<and> x \<le> 5
      | JString s \<Rightarrow>
          unsigned s \<noteq> [] \<and> list_all isDigit (unsigned s)
          \<and> (case StringToNumber s of None \<Rightarrow> False | Some x \<Rightarrow> 1 \<le> x \<and> x \<le> 5))"

text \<open>
  The cast of the schema type \<open>Number\<close>, for the field \<open>rating\<close> of a feedback: a
  string is converted with \<open>Number(val)\<close>, and \<open>NaN\<close> is a cast error, which fails
  the \<open>create\<close> or \<open>save\<close>. The stored rating is an integer (the validator and the
  schema's \<open>min\<close> and \<open>max\<close> see to it), and is returned as such.
\<close>

definition castRating :: "jsValue \<Rightarrow> int option" where
  "castRating v = map_option floor (ToNumber v)"

section \<open>Rating aggregate (routes/feedback.js)\<close>

text \<open>
  \<open>doctor.save()\<close> validates the document against the schema: \<open>rating\<close> has
  \<open>min: 0\<close> and \<open>max: 5\<close>. A rejected save throws, and the document in the database
  stays as it was: the result is \<open>None\<close>.
\<close>

definition saveDoctor :: "doctor \<Rightarrow> doctor option" where
  "saveDoctor doc = (if 0 \<le> rating doc \<and> rating doc \<le> 5 then Some doc else None)"

text \<open>\<open>Math.round(newRating * 10) / 10\<close>\<close>

definition roundRating :: "rat \<Rightarrow> rat" where
  "roundRating newRating = fdiv (of_int (Math_round (fmul newRating 10))) 10"

text \<open>
  The three updates of the aggregate, as the POST, PUT and DELETE routes of
  \<open>/api/feedback\<close> make them on the loaded doctor document. In POST and PUT the
  operand \<open>rating\<close> is the value of the request body, a Number or a string; in
  DELETE it is the stored rating of the feedback. Where the new rating is \<open>NaN\<close>
  or an infinity (a zero divisor, or a string that is no Number), the save rejects
  it.
\<close>

definition addRating :: "doctor \<Rightarrow> jsValue \<Rightarrow> doctor option" where
  "addRating doc rating' =
     (let totalRatings' = totalRatings doc + 1
      in case jsDivide (jsPlus (fmul (rating doc) (of_int (totalRatings doc))) rating')
                       (of_int totalRatings') of
           None \<Rightarrow> None
         | Some newRating \<Rightarrow>
             saveDoctor (doc\<lparr> rating := roundRating newRating,
                              totalRatings := totalRatings' \<rparr>))"

text \<open>The PUT route makes this update under the guard \<open>doctor.totalRatings > 0\<close>.\<close>

definition updateRating :: "doctor \<Rightarrow> int \<Rightarrow> jsValue \<Rightarrow> doctor option" where
  "updateRating doc oldRating rating' =
     (let totalRatings' = totalRatings doc;
          currentTotal = fmul (rating doc) (of_int totalRatings');
          newTotal = jsPlus (fsub currentTotal (of_int oldRating)) rating'
      in case jsDivide newTotal (of_int totalRatings') of
           None \<Rightarrow> None
         | Some newRating \<Rightarrow> saveDoctor (doc\<lparr> rating := roundRating newRating \<rparr>))"

definition removeRating :: "doctor \<Rightarrow> int \<Rightarrow> doctor option" where
  "removeRating doc r =
     (if totalRatings doc > 1 then
        (let totalRatings' = totalRatings doc - 1;
             currentTotal = fmul (rating doc) (of_int (totalRatings doc));
             newTotal = fsub currentTotal (of_int r);
             newRating = fdiv newTotal (of_int totalRatings')
         in saveDoctor (doc\<lparr> rating := roundRating newRating,
                              totalRatings := totalRatings' \<rparr>))
      else if totalRatings doc = 1 then
        saveDoctor (doc\<lparr> rating := 0, totalRatings := 0 \<rparr>)
      else Some doc)"

text \<open>
  The range of a stored aggregate: the mean within the schema's bounds, the count not
  negative, and the mean 0 when the count is 0.
\<close>

abbreviation aggregateInRange :: "doctor \<Rightarrow> bool" where
  "aggregateInRange doc \<equiv>
     0 \<le> rating doc \<and> rating doc \<le> 5 \<and> 0 \<le> totalRatings doc
     \<and> (totalRatings doc = 0 \<longrightarrow> rating doc = 0)"

section \<open>Feedback routes (routes/feedback.js)\<close>

definition findFeedback :: "db \<Rightarrow> objectId \<Rightarrow> feedback option" where
  "findFeedback d i = find (\<lambda>f. feedbackId f = i) (feedbacks d)"

fun saveFeedback :: "feedback \<Rightarrow> feedback list \<Rightarrow> feedback list" where
  "saveFeedback f [] = []"
| "saveFeedback f (g # gs) =
     (if feedbackId g = feedbackId f then f # gs else g # saveFeedback f gs)"

fun deleteFeedbackById :: "objectId \<Rightarrow> feedback list \<Rightarrow> feedback list" where
  "deleteFeedbackById i [] = []"
| "deleteFeedbackById i (g # gs) =
     (if feedbackId g = i then gs else g # deleteFeedbackById i gs)"

text \<open>
  Validation of a feedback document on \<open>create\<close> and \<open>save\<close>: \<open>rating\<close> has
  \<open>min: 1\<close> and \<open>max: 5\<close>, and \<open>comment\<close> has \<open>maxlength: 500\<close>.
\<close>

definition validFeedback :: "feedback \<Rightarrow> bool" where
  "validFeedback f \<longleftrightarrow>
     1 \<le> fbRating f \<and> fbRating f \<le> 5
     \<and> (case fbComment f of None \<Rightarrow> True | Some c \<Rightarrow> length c \<le> 500)"

text \<open>
  The bodies of POST and PUT. In POST, \<open>postAppointmentId = None\<close> is an empty or
  missing \<open>appointmentId\<close> and \<open>postRating = None\<close> a missing \<open>rating\<close>; in PUT,
  \<open>None\<close> is a field that the request leaves \<open>undefined\<close>. A rating is a JSON
  number or a JSON string.
\<close>

record postFeedbackBody =
  postAppointmentId :: "objectId option"
  postRating :: "jsValue option"
  postComment :: "string option"

record putFeedbackBody =
  putRating :: "jsValue option"
  putComment :: "string option"

subsection \<open>POST /api/feedback\<close>

definition submitFeedback :: "db \<Rightarrow> reqUser \<Rightarrow> postFeedbackBody \<Rightarrow> feedback response" where
  "submitFeedback d u body =
     (if \<not> authorize Patient u then (Inl ForbiddenError, d)
      else (case postAppointmentId body of
        None \<Rightarrow> (Inl ValidationError, d)
      | Some aid \<Rightarrow>
       (case postRating body of
          None \<Rightarrow> (Inl ValidationError, d)
        | Some rating' \<Rightarrow>
            if \<not> isInt rating' then (Inl ValidationError, d)
            else (case findAppointment d aid of
              None \<Rightarrow> (Inl NotFoundError, d)
            | Some appt \<Rightarrow>
                if patientId appt \<noteq> uid u then (Inl ForbiddenError, d)
                else if status appt \<noteq> Completed then (Inl NotCompletedError, d)
                else if find (\<lambda>f. fbAppointmentId f = aid) (feedbacks d) \<noteq> None
                then (Inl DuplicateFeedbackError, d)
                else (case castRating rating' of
                  None \<Rightarrow> (Inl ServerError, d)
                | Some stored \<Rightarrow>
                  (let f = \<lparr> feedbackId = freshId (map feedbackId (feedbacks d)),
                              fbAppointmentId = aid,
                              fbPatientId = uid u,
                              fbDoctorId = doctorId appt,
                              fbRating = stored,
                              fbComment = map_option trim (postComment body) \<rparr>
                   in if \<not> validFeedback f then (Inl ServerError, d)
                      else
                        (let d1 = d\<lparr> feedbacks := feedbacks d @ [f] \<rparr>
                         in (case doctors d1 (doctorId appt) of
                             None \<Rightarrow> (Inr f, d1)
                           | Some doc \<Rightarrow>
                              (case addRating doc rating' of
                                 None \<Rightarrow> (Inl ServerError, d1)
                               | Some doc' \<Rightarrow>
                                   (Inr f, d1\<lparr> doctors := (doctors d1)(doctorId appt \<mapsto> doc') \<rparr>))))))))))"

subsection \<open>PUT /api/feedback/:id\<close>

definition updateFeedback ::
  "db \<Rightarrow> reqUser \<Rightarrow> objectId \<Rightarrow> putFeedbackBody \<Rightarrow> feedback response" where
  "updateFeedback d u i body =
     (if \<not> authorize Patient u then (Inl ForbiddenError, d)
      else if (case putRating body of None \<Rightarrow> False | Some rating' \<Rightarrow> \<not> isInt rating')
      then (Inl ValidationError, d)
      else (case findFeedback d i of
        None \<Rightarrow> (Inl NotFoundError, d)
      | Some f \<Rightarrow>
          if fbPatientId f \<noteq> uid u then (Inl ForbiddenError, d)
          else (case (case putRating body of
                        None \<Rightarrow> Some (fbRating f) | Some rating' \<Rightarrow> castRating rating') of
            None \<Rightarrow> (Inl ServerError, d)
          | Some stored \<Rightarrow>
            (let oldRating = fbRating f;
                 f1 = f\<lparr> fbRating := stored \<rparr>;
                 f2 = (case putComment body of
                         None \<Rightarrow> f1 | Some c \<Rightarrow> f1\<lparr> fbComment := Some (trim c) \<rparr>)
             in if \<not> validFeedback f2 then (Inl ServerError, d)
                else
                  (let d1 = d\<lparr> feedbacks := saveFeedback f2 (feedbacks d) \<rparr>
                   in (case putRating body of
                       None \<Rightarrow> (Inr f2, d1)
                     | Some rating' \<Rightarrow>
                         if \<not> strictlyDiffers rating' (of_int oldRating) then (Inr f2, d1)
                         else (case doctors d1 (fbDoctorId f2) of
                           None \<Rightarrow> (Inr f2, d1)
                         | Some doc \<Rightarrow>
                             if \<not> totalRatings doc > 0 then (Inr f2, d1)
                             else (case updateRating doc oldRating rating' of
                               None \<Rightarrow> (Inl ServerError, d1)
                             | Some doc' \<Rightarrow>
                                 (Inr f2, d1\<lparr> doctors := (doctors d1)(fbDoctorId f2 \<mapsto> doc') \<rparr>)))))))))"

subsection \<open>DELETE /api/feedback/:id\<close>

definition deleteFeedback :: "db \<Rightarrow> reqUser \<Rightarrow> objectId \<Rightarrow> unit response" where
  "deleteFeedback d u i =
     (if \<not> authorize Patient u then (Inl ForbiddenError, d)
      else (case findFeedback d i of
        None \<Rightarrow> (Inl NotFoundError, d)
      | Some f \<Rightarrow>
          if fbPatientId f \<noteq> uid u then (Inl ForbiddenError, d)
          else (case doctors d (fbDoctorId f) of
            None \<Rightarrow> (Inr (), d\<lparr> feedbacks := deleteFeedbackById i (feedbacks d) \<rparr>)
          | Some doc \<Rightarrow>
             (case removeRating doc (fbRating f) of
                None \<Rightarrow> (Inl ServerError, d)
              | Some doc' \<Rightarrow>
                  (Inr (), d\<lparr> doctors := (doctors d)(fbDoctorId f \<mapsto> doc'),
                             feedbacks := deleteFeedbackById i (feedbacks d) \<rparr>)))))"

section \<open>Sequences of requests\<close>

text \<open>
  The requests that write appointments, and the requests that write the rating
  aggregate; a sequence of requests is served one after the other, each on the
  database its predecessor left, whatever it answered.
\<close>

datatype appointmentRequest =
    Book int reqUser bookingBody
  | Cancel reqUser objectId "string option"
  | Complete reqUser objectId "string option" "string option"

fun serveAppointment :: "db \<Rightarrow> appointmentRequest \<Rightarrow> db" where
  "serveAppointment d (Book now u body) = snd (bookAppointment d now u body)"
| "serveAppointment d (Cancel u i reason) = snd (cancelAppointment d u i reason)"
| "serveAppointment d (Complete u i n p) = snd (completeAppointment d u i n p)"

datatype feedbackRequest =
    Submit reqUser postFeedbackBody
  | Update reqUser objectId putFeedbackBody
  | Delete reqUser objectId

fun serveFeedback :: "db \<Rightarrow> feedbackRequest \<Rightarrow> db" where
  "serveFeedback d (Submit u body) = snd (submitFeedback d u body)"
| "serveFeedback d (Update u i body) = snd (updateFeedback d u i body)"
| "serveFeedback d (Delete u i) = snd (deleteFeedback d u i)"

section \<open>Example data\<close>

text \<open>
  A small database for the concrete runs below: patients 1 and 3, the approved and
  active doctor 2 with one weekly slot on Monday, and no appointment. \<open>monday\<close> is
  Monday 7 January 2030, 00:00 UTC.
\<close>

definition patientAccount :: user where
  "patientAccount = \<lparr> role = Patient, isApproved = True, isActive = True \<rparr>"

definition doctorAccount :: user where
  "doctorAccount = \<lparr> role = Doctor, isApproved = True, isActive = True \<rparr>"

definition mondaySlot :: availabilitySlot where
  "mondaySlot = \<lparr> startTime = ''09:00'', endTime = ''09:30'', day = Monday, isAvailable = True \<rparr>"

definition doctorProfile :: doctor where
  "doctorProfile =
     \<lparr> availability = [mondaySlot], rating = 0, totalRatings = 0, totalAppointments = 0 \<rparr>"

definition exampleDb :: db where
  "exampleDb = \<lparr> users = [1 \<mapsto> patientAccount, 2 \<mapsto> doctorAccount, 3 \<mapsto> patientAccount],
                 doctors = [2 \<mapsto> doctorProfile],
                 appointments = [],
                 feedbacks = [] \<rparr>"

definition patient1 :: reqUser where
  "patient1 = \<lparr> uid = 1, urole = Patient \<rparr>"

definition patient3 :: reqUser where
  "patient3 = \<lparr> uid = 3, urole = Patient \<rparr>"



definition monday :: int where
  "monday = 1893974400000"

definition mondayBooking :: bookingBody where
  "mondayBooking = \<lparr> bodyDoctorId = Some 2, bodyAppointmentDate = Some monday,
                      bodyTimeSlot = \<lparr> startTime = ''09:00'', endTime = ''09:30'' \<rparr>,
                      bodySymptoms = None \<rparr>"

text \<open>
  Patient 1 has booked the Monday slot, which stores \<open>mondayAppointment Confirmed\<close>;
  then patient 1 has cancelled it.
\<close>

definition mondayAppointment :: "status \<Rightarrow> appointment" where
  "mondayAppointment s =
     \<lparr> apptId = 1, patientId = 1, doctorId = 2, appointmentDate = monday,
       timeSlot = \<lparr> startTime = ''09:00'', endTime = ''09:30'' \<rparr>,
       status = s, symptoms = None, notes' = None, prescription = [], cancelReason = None \<rparr>"

definition bookedMonday :: db where
  "bookedMonday = snd (bookAppointment exampleDb 0 patient1 mondayBooking)"

definition cancelledMonday :: db where
  "cancelledMonday = snd (cancelAppointment bookedMonday patient1 1 None)"


definition inactiveDoctorDb :: db where
  "inactiveDoctorDb =
     exampleDb\<lparr> users := (users exampleDb)(2 \<mapsto> doctorAccount\<lparr> isActive := False \<rparr>) \<rparr>"

text \<open>
  Patient 1 has had four visits with doctor 2, a week apart, all completed and none
  rated yet.
\<close>

definition completedVisit :: "objectId \<Rightarrow> int \<Rightarrow> appointment" where
  "completedVisit i t =
     \<lparr> apptId = i, patientId = 1, doctorId = 2, appointmentDate = t,
       timeSlot = \<lparr> startTime = ''09:00'', endTime = ''09:30'' \<rparr>, status = Completed,
       symptoms = None, notes' = None, prescription = [], cancelReason = None \<rparr>"

definition visitedDb :: db where
  "visitedDb =
     exampleDb\<lparr> appointments := [completedVisit 1 0, completedVisit 2 604800000,
                                  completedVisit 3 1209600000, completedVisit 4 1814400000] \<rparr>"

definition rate :: "objectId \<Rightarrow> jsValue \<Rightarrow> feedbackRequest" where
  "rate a v =
     Submit patient1 \<lparr> postAppointmentId = Some a, postRating = Some v, postComment = None \<rparr>"

definition rerate :: "objectId \<Rightarrow> jsValue \<Rightarrow> feedbackRequest" where
  "rerate f v = Update patient1 f \<lparr> putRating = Some v, putComment = None \<rparr>"

text \<open>
  Fourteen requests of patient 1: three ratings (1, 1, 2), nine changes of a rating,
  and the deletion of two of the three feedbacks.
\<close>

definition driftRequests :: "feedbackRequest list" where
  "driftRequests =
     [rate 1 (JNumber 1), rate 2 (JNumber 1), rate 3 (JNumber 2),
      rerate 1 (JNumber 2), rerate 2 (JNumber 2), rerate 1 (JNumber 3), rerate 2 (JNumber 3),
      rerate 3 (JNumber 3),
      rerate 1 (JNumber 1), rerate 1 (JNumber 2), rerate 1 (JNumber 3), rerate 1 (JNumber 1),
      Delete patient1 2, Delete patient1 3]"

section \<open>Evaluation of concrete runs\<close>

text \<open>
  Rules that let the simplifier compute \<open>fl\<close> on numerals: the bit length of a
  binary numeral, and the floor of a quotient of numerals.
\<close>

lemma bitlen_numeral:
  "bitlen 1 = 1"
  "bitlen (numeral (Num.Bit0 n)) = bitlen (numeral n) + 1"
  "bitlen (numeral (Num.Bit1 n)) = bitlen (numeral n) + 1"
proof -
  show "bitlen 1 = 1" by (subst compute_bitlen) simp
  have "numeral (Num.Bit0 n) div (2::int) = numeral n" by simp
  then show "bitlen (numeral (Num.Bit0 n)) = bitlen (numeral n) + 1"
    by (subst compute_bitlen) simp
  have "numeral (Num.Bit1 n) div (2::int) = numeral n" by simp
  then show "bitlen (numeral (Num.Bit1 n)) = bitlen (numeral n) + 1"
    by (subst compute_bitlen) simp
qed

lemma floor_numeral_div:
  "\<lfloor>numeral a / numeral b :: rat\<rfloor> = numeral a div numeral b"
  "\<lfloor>- (numeral a / numeral b) :: rat\<rfloor> = - numeral a div numeral b"
  "\<lfloor>1 / numeral b :: rat\<rfloor> = 1 div numeral b"
  "\<lfloor>- (1 / numeral b) :: rat\<rfloor> = - 1 div numeral b"
  using floor_divide_of_int_eq[of "numeral a" "numeral b", where ?'a = rat]
        floor_divide_of_int_eq[of "- numeral a" "numeral b", where ?'a = rat]
        floor_divide_of_int_eq[of 1 "numeral b", where ?'a = rat]
        floor_divide_of_int_eq[of "- 1" "numeral b", where ?'a = rat]
  by simp_all

text \<open>The two example databases with the Monday appointment, computed.\<close>

lemma bookedMonday_eq:
  "bookedMonday =
     exampleDb\<lparr> appointments := [mondayAppointment Confirmed],
                 doctors := [2 \<mapsto> doctorProfile\<lparr> totalAppointments := 1 \<rparr>] \<rparr>"
  by (simp add: bookedMonday_def mondayAppointment_def mondayBooking_def monday_def patient1_def
        exampleDb_def patientAccount_def doctorAccount_def doctorProfile_def
        bookAppointment_def authorize_def freshId_def createAppointment_def isActiveStatus_def
        slotKey_def trim_def Let_def)

lemma findAppointment_bookedMonday:
  "findAppointment bookedMonday 1 = Some (mondayAppointment Confirmed)"
  by (simp add: bookedMonday_eq findAppointment_def mondayAppointment_def)

lemma cancelledMonday_eq:
  "cancelledMonday =
     exampleDb\<lparr> appointments := [mondayAppointment Cancelled],
                 doctors := [2 \<mapsto> doctorProfile\<lparr> totalAppointments := 1 \<rparr>] \<rparr>"
  by (simp add: cancelledMonday_def bookedMonday_eq mondayAppointment_def patient1_def
        exampleDb_def patientAccount_def doctorAccount_def doctorProfile_def
        cancelAppointment_def cancelNotAuthorized_def findAppointment_def Let_def)


section \<open>The ledger: uniqueness of the slot key\<close>

lemma find_apptId: "find (\<lambda>b. apptId b = i) as = Some a \<Longrightarrow> apptId a = i"
  by (induction as) (auto split: if_splits)

lemma map_slotKey_save:
  "find (\<lambda>b. apptId b = i) as = Some a \<Longrightarrow> apptId a' = apptId a \<Longrightarrow> slotKey a' = slotKey a
   \<Longrightarrow> map slotKey (saveAppointment a' as) = map slotKey as"
  by (induction as) (auto split: if_splits dest: find_apptId)

lemma find_save_same:
  "find (\<lambda>b. apptId b = i) as = Some a \<Longrightarrow> apptId a' = i
   \<Longrightarrow> find (\<lambda>b. apptId b = i) (saveAppointment a' as) = Some a'"
  by (induction as) (auto split: if_splits)

lemma find_save_other:
  "j \<noteq> apptId a'
   \<Longrightarrow> find (\<lambda>b. apptId b = j) (saveAppointment a' as) = find (\<lambda>b. apptId b = j) as"
  by (induction as) auto

lemma book_keys:
  "distinct (map slotKey (appointments d))
   \<Longrightarrow> distinct (map slotKey (appointments (snd (bookAppointment d now u body))))"
  by (auto simp: bookAppointment_def createAppointment_def Let_def split: option.splits if_splits)

lemma cancel_keys:
  "map slotKey (appointments (snd (cancelAppointment d u i reason))) = map slotKey (appointments d)"
  by (auto simp: cancelAppointment_def findAppointment_def Let_def
           intro!: map_slotKey_save simp: slotKey_def
           split: option.splits if_splits)

lemma complete_keys:
  "map slotKey (appointments (snd (completeAppointment d u i n p))) = map slotKey (appointments d)"
  by (auto simp: completeAppointment_def findAppointment_def Let_def setIfTruthy_def
           intro!: map_slotKey_save simp: slotKey_def
           split: option.splits if_splits)

lemma serve_keys:
  "distinct (map slotKey (appointments d))
   \<Longrightarrow> distinct (map slotKey (appointments (serveAppointment d r)))"
  by (cases r) (simp_all add: book_keys cancel_keys complete_keys)

lemma serve_all_keys:
  "distinct (map slotKey (appointments d))
   \<Longrightarrow> distinct (map slotKey (appointments (foldl serveAppointment d rs)))"
  by (induction rs arbitrary: d) (simp_all add: serve_keys)

text \<open>
  The unique index keeps the stored keys distinct (\<open>serve_all_keys\<close>). The key holds
  the instant of \<open>appointmentDate\<close> as the request gave it: neither the route nor
  the schema reduces it to a calendar date.
\<close>

text \<open>
  C1. Patient 1 books doctor 2 for Monday 7 January 2030 at 09:00 with the date
  \<open>2030-01-07T00:00:00.000Z\<close>, and patient 3 books the same doctor, day and start
  time with the date \<open>2030-01-07T01:00:00.000Z\<close>. Both requests succeed: the ledger
  holds two confirmed appointments of doctor 2 on the calendar date 7 January 2030
  (day 21921 since the epoch, in UTC) with the start time 09:00. The same happens
  with the dates that the booking page sends for 7 January from a browser in UTC and
  from a browser in a zone five and a half hours east of UTC (local midnight, that is
  \<open>2030-01-07T00:00:00.000Z\<close> and \<open>2030-01-06T18:30:00.000Z\<close>). The check of the route
  and the unique index both compare the stored instants, which differ.
\<close>

theorem double_booking_same_day:
  "map (\<lambda>a. (doctorId a, localDay utc (appointmentDate a), startTime (timeSlot a), status a))
       (appointments (foldl serveAppointment exampleDb
          [Book 0 patient1 mondayBooking,
           Book 0 patient3 (mondayBooking\<lparr> bodyAppointmentDate := Some (monday + 3600000) \<rparr>)]))
     = [(2, 21921, ''09:00'', Confirmed), (2, 21921, ''09:00'', Confirmed)]
   \<and> length (filter (\<lambda>a. doctorId a = 2 \<and> localDay utc (appointmentDate a) = localDay utc monday
                          \<and> startTime (timeSlot a) = ''09:00'' \<and> isActiveStatus (status a))
        (appointments (foldl serveAppointment exampleDb
          [Book 0 patient1 mondayBooking,
           Book 0 patient3 (mondayBooking\<lparr> bodyAppointmentDate := Some (monday + 3600000) \<rparr>)])))
     = 2
   \<and> map (\<lambda>a. (doctorId a, appointmentDate a, startTime (timeSlot a), status a))
       (appointments (foldl serveAppointment exampleDb
          [Book 0 patient1 mondayBooking,
           Book 0 patient3 (mondayBooking\<lparr> bodyAppointmentDate := Some (monday - 19800000) \<rparr>)]))
     = [(2, monday, ''09:00'', Confirmed), (2, monday - 19800000, ''09:00'', Confirmed)]
   \<and> localDay utc monday = 21921 \<and> localDay 19800000 (monday - 19800000) = 21921"
  by (simp add: mondayBooking_def monday_def patient1_def patient3_def
        exampleDb_def patientAccount_def doctorAccount_def doctorProfile_def
        bookAppointment_def authorize_def freshId_def createAppointment_def isActiveStatus_def
        slotKey_def trim_def Let_def localDay_def utc_def)

text \<open>
  C2. After patient 1 has booked the Monday slot and cancelled it, the only
  appointment at that key is cancelled; a new booking of the same key by patient 3
  is still answered "This time slot is already booked", and nothing is inserted: the
  unique index counts the cancelled appointment.
\<close>

theorem rebook_after_cancel_rejected:
  "map (\<lambda>a. (slotKey a, status a)) (appointments cancelledMonday)
     = [((2, monday, ''09:00''), Cancelled)]
   \<and> bookAppointment cancelledMonday 0 patient3 mondayBooking
     = (Inl SlotAlreadyBookedError, cancelledMonday)"
  by (simp add: cancelledMonday_eq mondayAppointment_def mondayBooking_def monday_def
        patient3_def
        exampleDb_def patientAccount_def doctorAccount_def doctorProfile_def
        bookAppointment_def authorize_def freshId_def createAppointment_def isActiveStatus_def
        slotKey_def trim_def Let_def)

section \<open>Slot resolution\<close>

text \<open>
  What the route computes: the enabled entries of the weekday of the requested
  instant, in the stored order, each marked booked exactly if its start time is the
  start time of an active appointment of the doctor whose stored date lies in the 24
  hours that start at the requested instant. The route leaves the database as it is.
\<close>

lemma bookedSlots_mem:
  "s \<in> set (bookedSlots d did t) \<longleftrightarrow>
     (\<exists>a \<in> set (appointments d).
        doctorId a = did \<and> t \<le> appointmentDate a \<and> appointmentDate a < t + 86400000
        \<and> isActiveStatus (status a) \<and> startTime (timeSlot a) = s)"
  unfolding bookedSlots_def nextDay_def by force

lemma availableSlots_window:
  assumes "doctors d did = Some doc"
  shows "availableSlots z d did (Some (DateMs t)) =
     (Inr (map (\<lambda>slot. \<lparr> startTime = startTime slot, endTime = endTime slot, day = day slot,
                        isBooked = (\<exists>a \<in> set (appointments d).
                           doctorId a = did \<and> t \<le> appointmentDate a
                           \<and> appointmentDate a < t + 86400000
                           \<and> isActiveStatus (status a)
                           \<and> startTime (timeSlot a) = startTime slot) \<rparr>)
            (filter (\<lambda>slot. day slot = weekdayOf z t \<and> isAvailable slot) (availability doc))), d)"
  using assms
  by (simp add: availableSlots_def Let_def bookedSlots_mem split: option.splits jsDate.splits)

lemma availableSlots_reads: "snd (availableSlots z d did date) = d"
  by (simp add: availableSlots_def Let_def split: option.splits jsDate.splits)

text \<open>
  C3. Patient 1 has booked doctor 2 for Monday 7 January 2030 at 09:00 (date
  \<open>2030-01-07T00:00:00.000Z\<close>): the ledger holds a confirmed appointment of doctor 2
  on that calendar date with the start time 09:00. Asked for the slots of doctor 2
  with \<open>date=2030-01-07T01:00:00.000Z\<close>, an instant of the same calendar date, the
  route lists the slot 09:00 with \<open>isBooked = false\<close>. The same happens through the
  pages of the application in a browser five and a half hours east of UTC: the
  booking page sends the date of the booking for 7 January as
  \<open>2030-01-06T18:30:00.000Z\<close> (local midnight) and asks for the slots with
  \<open>date=2030-01-07\<close>, which the server reads as \<open>2030-01-07T00:00:00.000Z\<close>; the slot
  it has just booked is listed with \<open>isBooked = false\<close>. The route looks for
  appointments in the 24 hours that start at the requested instant, and the stored
  date is the instant of the booking request, not a calendar date. (Asked with the
  very instant of the stored date, the route lists the slot as booked.) The weekday
  is that of the requested instant in the zone of the server: on a server five hours
  west of UTC, \<open>date=2030-01-07\<close>, a Monday, is answered with the entries of Sunday,
  here none.
\<close>

theorem booked_slot_listed_free:
  "map (\<lambda>a. (doctorId a, localDay utc (appointmentDate a), startTime (timeSlot a), status a))
       (appointments bookedMonday)
     = [(2, 21921, ''09:00'', Confirmed)]
   \<and> localDay utc (monday + 3600000) = 21921
   \<and> availableSlots utc bookedMonday 2 (Some (DateMs (monday + 3600000)))
     = (Inr [\<lparr> startTime = ''09:00'', endTime = ''09:30'', day = Monday, isBooked = False \<rparr>],
        bookedMonday)
   \<and> map (\<lambda>a. (doctorId a, localDay 19800000 (appointmentDate a), startTime (timeSlot a),
                status a))
       (appointments (snd (bookAppointment exampleDb 0 patient1
          (mondayBooking\<lparr> bodyAppointmentDate := Some (monday - 19800000) \<rparr>))))
     = [(2, 21921, ''09:00'', Confirmed)]
   \<and> localDay 19800000 (monday - 19800000) = 21921
   \<and> fst (availableSlots utc
          (snd (bookAppointment exampleDb 0 patient1
             (mondayBooking\<lparr> bodyAppointmentDate := Some (monday - 19800000) \<rparr>)))
          2 (Some (DateMs monday)))
     = Inr [\<lparr> startTime = ''09:00'', endTime = ''09:30'', day = Monday, isBooked = False \<rparr>]
   \<and> fst (availableSlots utc bookedMonday 2 (Some (DateMs monday)))
     = Inr [\<lparr> startTime = ''09:00'', endTime = ''09:30'', day = Monday, isBooked = True \<rparr>]
   \<and> weekdayOf (- 18000000) monday = Sunday
   \<and> fst (availableSlots (- 18000000) bookedMonday 2 (Some (DateMs monday))) = Inr []"
  by (simp add: bookedMonday_def mondayBooking_def monday_def patient1_def
        exampleDb_def patientAccount_def doctorAccount_def doctorProfile_def mondaySlot_def
        bookAppointment_def authorize_def freshId_def createAppointment_def isActiveStatus_def
        slotKey_def trim_def Let_def
        availableSlots_def bookedSlots_def nextDay_def weekdayOf_def localDay_def utc_def)

section \<open>The appointment state machine\<close>




section \<open>Preconditions of a booking\<close>




text \<open>
  C6. The account of doctor 2 is approved and deactivated (\<open>isActive = false\<close>). The
  booking of the doctor's Monday slot succeeds and inserts a confirmed appointment:
  the route tests \<open>isApproved\<close> and never reads \<open>isActive\<close>.
\<close>

theorem inactive_doctor_booked:
  "map_option isActive (users inactiveDoctorDb 2) = Some False
   \<and> map_option isApproved (users inactiveDoctorDb 2) = Some True
   \<and> fst (bookAppointment inactiveDoctorDb 0 patient1 mondayBooking)
       = Inr (mondayAppointment Confirmed)
   \<and> appointments (snd (bookAppointment inactiveDoctorDb 0 patient1 mondayBooking))
       = [mondayAppointment Confirmed]"
  by (simp add: inactiveDoctorDb_def mondayAppointment_def mondayBooking_def monday_def
        patient1_def
        exampleDb_def patientAccount_def doctorAccount_def doctorProfile_def
        bookAppointment_def authorize_def freshId_def createAppointment_def isActiveStatus_def
        slotKey_def trim_def Let_def)

section \<open>The frame of a cancellation\<close>

text \<open>
  C10. A successful cancellation returns the stored appointment with the status set
  to cancelled and the cancel reason set to the (trimmed) reason of the request;
  patient, doctor, date, time slot, symptoms, notes and prescription are those of
  the appointment before. The database differs in that appointment only: the
  appointment is stored under its identifier, and every other identifier finds what
  it found before.
\<close>

theorem cancel_frame:
  assumes "findAppointment d i = Some a"
    and "cancelAppointment d u i reason = (Inr a', d')"
  shows "a' = a\<lparr> status := Cancelled, cancelReason := map_option trim reason \<rparr>
    \<and> patientId a' = patientId a \<and> doctorId a' = doctorId a
    \<and> appointmentDate a' = appointmentDate a \<and> timeSlot a' = timeSlot a
    \<and> symptoms a' = symptoms a \<and> notes' a' = notes' a \<and> prescription a' = prescription a
    \<and> d' = d\<lparr> appointments := saveAppointment a' (appointments d) \<rparr>
    \<and> findAppointment d' i = Some a'
    \<and> (\<forall>j. j \<noteq> i \<longrightarrow> findAppointment d' j = findAppointment d j)"
proof -
  have id: "apptId a = i" using assms(1) unfolding findAppointment_def by (rule find_apptId)
  have a': "a' = a\<lparr> status := Cancelled, cancelReason := map_option trim reason \<rparr>"
    and d': "d' = d\<lparr> appointments := saveAppointment a' (appointments d) \<rparr>"
    using assms by (auto simp: cancelAppointment_def Let_def split: option.splits if_splits)
  have "findAppointment d' i = Some a'"
    unfolding d' findAppointment_def using assms(1) id a'
    by (simp add: find_save_same findAppointment_def)
  moreover have "\<forall>j. j \<noteq> i \<longrightarrow> findAppointment d' j = findAppointment d j"
    unfolding d' findAppointment_def using id a' by (simp add: find_save_other)
  ultimately show ?thesis using a' d' by simp
qed

text \<open>
  The run for C10: patient 1 cancels the booked Monday appointment with a reason.
\<close>

theorem cancel_frame_witness:
  "findAppointment bookedMonday 1 = Some (mondayAppointment Confirmed)
   \<and> cancelAppointment bookedMonday patient1 1 (Some '' ill '')
       = (Inr ((mondayAppointment Cancelled)\<lparr> cancelReason := Some ''ill'' \<rparr>),
          bookedMonday\<lparr> appointments :=
            [(mondayAppointment Cancelled)\<lparr> cancelReason := Some ''ill'' \<rparr>] \<rparr>)
   \<and> (mondayAppointment Cancelled)\<lparr> cancelReason := Some ''ill'' \<rparr>
       = (mondayAppointment Confirmed)
           \<lparr> status := Cancelled, cancelReason := map_option trim (Some '' ill '') \<rparr>
   \<and> symptoms ((mondayAppointment Cancelled)\<lparr> cancelReason := Some ''ill'' \<rparr>)
       = symptoms (mondayAppointment Confirmed)"
proof -
  have a: "findAppointment bookedMonday 1 = Some (mondayAppointment Confirmed)"
    by (rule findAppointment_bookedMonday)
  have r: "cancelAppointment bookedMonday patient1 1 (Some '' ill '')
       = (Inr ((mondayAppointment Cancelled)\<lparr> cancelReason := Some ''ill'' \<rparr>),
          bookedMonday\<lparr> appointments :=
            [(mondayAppointment Cancelled)\<lparr> cancelReason := Some ''ill'' \<rparr>] \<rparr>)"
    by (simp add: bookedMonday_eq mondayAppointment_def patient1_def
          exampleDb_def patientAccount_def doctorAccount_def doctorProfile_def
          cancelAppointment_def cancelNotAuthorized_def findAppointment_def Let_def trim_def isWhiteSpace_def)
  from cancel_frame[OF a r] a r show ?thesis by blast
qed

section \<open>Rounding error of Number arithmetic\<close>

lemma roundTiesToEven_error: "\<bar>of_int (roundTiesToEven y) - y\<bar> \<le> 1/2"
proof -
  have "of_int \<lfloor>y\<rfloor> \<le> y" "y < of_int \<lfloor>y\<rfloor> + 1" by linarith+
  then show ?thesis
    unfolding roundTiesToEven_def Let_def by (auto simp: abs_le_iff)
qed

lemma ilog2_le:
  assumes "0 < x"
  shows "2 powi (ilog2 x) \<le> x"
proof (cases "1 \<le> x")
  case True
  define f where "f = \<lfloor>x\<rfloor>"
  have f: "0 < f" using True unfolding f_def by simp
  have bf: "1 \<le> bitlen f" using f bitlen_eq_zero_iff[of f] bitlen_nonneg[of f] by linarith
  have "(2::int) ^ nat (bitlen f - 1) \<le> f" using bitlen_bounds[OF f] by simp
  then have "of_int ((2::int) ^ nat (bitlen f - 1)) \<le> (of_int f :: rat)"
    by (simp only: of_int_le_iff)
  then have "(2::rat) powi (bitlen f - 1) \<le> of_int f" using bf by (simp add: power_int_def)
  also have "\<dots> \<le> x" unfolding f_def by simp
  finally show ?thesis using True unfolding ilog2_def f_def by simp
next
  case False
  define g where "g = \<lfloor>1 / x\<rfloor>"
  define b where "b = bitlen g"
  have y: "1 < 1 / x" using assms False by simp
  have g: "0 < g" using y unfolding g_def by simp
  have b0: "0 \<le> b" unfolding b_def by (rule bitlen_nonneg)
  have "g < (2::int) ^ nat b" using bitlen_bounds[OF g] unfolding b_def by simp
  then have "g + 1 \<le> (2::int) ^ nat b" by simp
  then have "(of_int (g + 1) :: rat) \<le> of_int ((2::int) ^ nat b)" by (simp only: of_int_le_iff)
  then have "(of_int g :: rat) + 1 \<le> 2 ^ nat b" by simp
  moreover have "1 / x < of_int g + 1" unfolding g_def by linarith
  ultimately have "1 / x < 2 ^ nat b" by linarith
  then have "1 < x * 2 ^ nat b" using assms by (simp add: field_simps)
  then have "1 / 2 ^ nat b \<le> x" by (simp add: field_simps)
  then have "(2::rat) powi (- b) \<le> x" using b0 by (auto simp: power_int_def field_simps)
  then show ?thesis using False unfolding ilog2_def Let_def g_def[symmetric] b_def[symmetric] by simp
qed

lemma ilog2_less:
  assumes "0 < x"
  shows "x < 2 powi (ilog2 x + 1)"
proof (cases "1 \<le> x")
  case True
  define f where "f = \<lfloor>x\<rfloor>"
  have f: "0 < f" using True unfolding f_def by simp
  have b0: "0 \<le> bitlen f" by (rule bitlen_nonneg)
  have "f < (2::int) ^ nat (bitlen f)" using bitlen_bounds[OF f] by simp
  then have "f + 1 \<le> (2::int) ^ nat (bitlen f)" by simp
  then have "(of_int (f + 1) :: rat) \<le> of_int ((2::int) ^ nat (bitlen f))"
    by (simp only: of_int_le_iff)
  then have "(of_int f :: rat) + 1 \<le> 2 ^ nat (bitlen f)" by simp
  moreover have "x < of_int f + 1" unfolding f_def by linarith
  ultimately have "x < 2 ^ nat (bitlen f)" by linarith
  then have "x < 2 powi (bitlen f)" using b0 by (simp add: power_int_def)
  then show ?thesis using True unfolding ilog2_def f_def by simp
next
  case False
  define g where "g = \<lfloor>1 / x\<rfloor>"
  define b where "b = bitlen g"
  have y: "1 < 1 / x" using assms False by simp
  have g: "0 < g" using y unfolding g_def by simp
  have b1: "1 \<le> b" using g bitlen_eq_zero_iff[of g] bitlen_nonneg[of g] unfolding b_def by linarith
  have "(2::int) ^ nat (b - 1) \<le> g" using bitlen_bounds[OF g] unfolding b_def by simp
  then have "of_int ((2::int) ^ nat (b - 1)) \<le> (of_int g :: rat)" by (simp only: of_int_le_iff)
  then have "(2::rat) ^ nat (b - 1) \<le> of_int g" by simp
  also have "\<dots> \<le> 1 / x" unfolding g_def by simp
  finally have "x * 2 ^ nat (b - 1) \<le> 1" using assms by (simp add: field_simps)
  then have "x \<le> 1 / 2 ^ nat (b - 1)" by (simp add: field_simps)
  also have "\<dots> = 2 powi (1 - b)" using b1 by (auto simp: power_int_def field_simps)
  finally have le: "x \<le> 2 powi (1 - b)" .
  have up: "(2::rat) powi (1 - b) < 2 powi (2 - b)"
    by (intro power_int_strict_increasing) simp_all
  show ?thesis
  proof (cases "2 powi (1 - b) \<le> x")
    case True
    then have "ilog2 x = 1 - b"
      using False unfolding ilog2_def Let_def g_def[symmetric] b_def[symmetric] by simp
    moreover have "x < 2 powi (2 - b)" using le up by linarith
    ultimately show ?thesis by simp
  next
    case nle: False
    then have "ilog2 x = - b"
      using False unfolding ilog2_def Let_def g_def[symmetric] b_def[symmetric] by simp
    moreover have "x < 2 powi (1 - b)" using nle by simp
    ultimately show ?thesis by simp
  qed
qed

text \<open>The decimal digits of a positive integer, and the decimal exponent of a positive Number.\<close>

lemma digitsOf_nonempty: "digitsOf n \<noteq> []"
  by (subst digitsOf.simps) simp

lemma digitsOf_bounds:
  "0 < n \<Longrightarrow> 10 ^ (length (digitsOf n) - 1) \<le> n \<and> n < 10 ^ length (digitsOf n)"
proof (induction n rule: digitsOf.induct)
  case (1 n)
  show ?case
  proof (cases "n < 10")
    case True
    then have "digitsOf n = [''0123456789'' ! nat n]" by (subst digitsOf.simps) simp
    with True "1.prems" show ?thesis by simp
  next
    case False
    define m where "m = n div 10"
    define L where "L = length (digitsOf m)"
    have m: "0 < m" using False unfolding m_def by simp
    have L: "1 \<le> L" using digitsOf_nonempty[of m] unfolding L_def by (cases "digitsOf m") simp_all
    have len: "length (digitsOf n) = L + 1"
      using False unfolding L_def m_def by (subst digitsOf.simps) simp
    from "1.IH"[OF False] m have ih: "10 ^ (L - 1) \<le> m" "m < 10 ^ L"
      unfolding m_def L_def by simp_all
    have n: "10 * m \<le> n" "n \<le> 10 * m + 9" unfolding m_def by simp_all
    have p: "(10::int) ^ L = 10 * 10 ^ (L - 1)" using L by (cases L) simp_all
    have "10 ^ L \<le> n" using ih(1) n(1) unfolding p by simp
    moreover have "m + 1 \<le> 10 ^ L" using ih(2) by simp
    then have "n < 10 * 10 ^ L" using n(2) by linarith
    ultimately show ?thesis unfolding len by simp
  qed
qed

lemma ilog10_bounds:
  assumes "0 < x"
  shows "10 powi (ilog10 x) \<le> x" and "x < 10 powi (ilog10 x + 1)"
proof -
  show "10 powi (ilog10 x) \<le> x"
  proof (cases "1 \<le> x")
    case True
    define f where "f = \<lfloor>x\<rfloor>"
    define L where "L = length (digitsOf f)"
    have f: "0 < f" using True unfolding f_def by simp
    have L: "1 \<le> L" using digitsOf_nonempty[of f] unfolding L_def by (cases "digitsOf f") simp_all
    have "(10::int) ^ (L - 1) \<le> f" using digitsOf_bounds[OF f] unfolding L_def by simp
    then have "of_int ((10::int) ^ (L - 1)) \<le> (of_int f :: rat)" by (simp only: of_int_le_iff)
    then have "(10::rat) ^ (L - 1) \<le> of_int f" by simp
    also have "\<dots> \<le> x" unfolding f_def by simp
    finally have "(10::rat) powi (int L - 1) \<le> x" using L by (simp add: power_int_def nat_diff_distrib)
    then show ?thesis using True unfolding ilog10_def f_def L_def by simp
  next
    case False
    define g where "g = \<lfloor>1 / x\<rfloor>"
    define L where "L = length (digitsOf g)"
    have y: "1 < 1 / x" using assms False by simp
    have g: "0 < g" using y unfolding g_def by simp
    have "g < (10::int) ^ L" using digitsOf_bounds[OF g] unfolding L_def by simp
    then have "g + 1 \<le> (10::int) ^ L" by simp
    then have "(of_int (g + 1) :: rat) \<le> of_int ((10::int) ^ L)" by (simp only: of_int_le_iff)
    then have "(of_int g :: rat) + 1 \<le> 10 ^ L" by simp
    moreover have "1 / x < of_int g + 1" unfolding g_def by linarith
    ultimately have "1 / x < 10 ^ L" by linarith
    then have "1 < x * 10 ^ L" using assms by (simp add: field_simps)
    then have "1 / 10 ^ L \<le> x" by (simp add: field_simps)
    then have "(10::rat) powi (- int L) \<le> x" by (auto simp: power_int_def field_simps)
    then show ?thesis
      using False unfolding ilog10_def Let_def g_def[symmetric] L_def[symmetric] by simp
  qed
  show "x < 10 powi (ilog10 x + 1)"
  proof (cases "1 \<le> x")
    case True
    define f where "f = \<lfloor>x\<rfloor>"
    define L where "L = length (digitsOf f)"
    have f: "0 < f" using True unfolding f_def by simp
    have "f < (10::int) ^ L" using digitsOf_bounds[OF f] unfolding L_def by simp
    then have "f + 1 \<le> (10::int) ^ L" by simp
    then have "(of_int (f + 1) :: rat) \<le> of_int ((10::int) ^ L)" by (simp only: of_int_le_iff)
    then have "(of_int f :: rat) + 1 \<le> 10 ^ L" by simp
    moreover have "x < of_int f + 1" unfolding f_def by linarith
    ultimately have "x < 10 ^ L" by linarith
    then have "x < 10 powi (int L)" by (simp add: power_int_def)
    then show ?thesis using True unfolding ilog10_def f_def L_def by simp
  next
    case False
    define g where "g = \<lfloor>1 / x\<rfloor>"
    define L where "L = length (digitsOf g)"
    have y: "1 < 1 / x" using assms False by simp
    have g: "0 < g" using y unfolding g_def by simp
    have L: "1 \<le> L" using digitsOf_nonempty[of g] unfolding L_def by (cases "digitsOf g") simp_all
    have "(10::int) ^ (L - 1) \<le> g" using digitsOf_bounds[OF g] unfolding L_def by simp
    then have "of_int ((10::int) ^ (L - 1)) \<le> (of_int g :: rat)" by (simp only: of_int_le_iff)
    then have "(10::rat) ^ (L - 1) \<le> of_int g" by simp
    also have "\<dots> \<le> 1 / x" unfolding g_def by simp
    finally have "x * 10 ^ (L - 1) \<le> 1" using assms by (simp add: field_simps)
    then have "x \<le> 1 / 10 ^ (L - 1)" by (simp add: field_simps)
    also have "\<dots> = 10 powi (1 - int L)" using L by (auto simp: power_int_def field_simps nat_diff_distrib)
    finally have le: "x \<le> 10 powi (1 - int L)" .
    have up: "(10::rat) powi (1 - int L) < 10 powi (2 - int L)"
      by (intro power_int_strict_increasing) simp_all
    show ?thesis
    proof (cases "10 powi (1 - int L) \<le> x")
      case True
      then have "ilog10 x = 1 - int L"
        using False unfolding ilog10_def Let_def g_def[symmetric] L_def[symmetric] by simp
      moreover have "x < 10 powi (2 - int L)" using le up by linarith
      ultimately show ?thesis by simp
    next
      case nle: False
      then have "ilog10 x = - int L"
        using False unfolding ilog10_def Let_def g_def[symmetric] L_def[symmetric] by simp
      moreover have "x < 10 powi (1 - int L)" using nle by simp
      ultimately show ?thesis by simp
    qed
  qed
qed

text \<open>The result of an operation is within one part in \<open>2 ^ 53\<close> of the exact result.\<close>

lemma fl_error: "\<bar>fl x - x\<bar> \<le> \<bar>x\<bar> / 2 ^ 53"
proof (cases "x = 0")
  case True
  then show ?thesis by (simp add: fl_def)
next
  case False
  define e where "e = ilog2 \<bar>x\<bar> - 52"
  define s :: rat where "s = 2 powi e"
  define m where "m = roundTiesToEven (\<bar>x\<bar> / s)"
  have s: "0 < s" unfolding s_def by simp
  have flx: "fl x = sgn x * of_int m * s"
    using False unfolding fl_def Let_def m_def s_def e_def by simp
  have "2 powi (ilog2 \<bar>x\<bar>) \<le> \<bar>x\<bar>" using False by (intro ilog2_le) simp
  moreover have "(2::rat) powi (ilog2 \<bar>x\<bar>) = s * 2 ^ 52"
    unfolding s_def e_def by (simp add: power_int_diff)
  ultimately have sx: "s * 2 ^ 52 \<le> \<bar>x\<bar>" by simp
  have "x = sgn x * \<bar>x\<bar>" by (simp add: sgn_mult_abs)
  then have "fl x - x = sgn x * (of_int m * s - \<bar>x\<bar>)"
    unfolding flx by (simp add: algebra_simps)
  then have "\<bar>fl x - x\<bar> = \<bar>sgn x * (of_int m * s - \<bar>x\<bar>)\<bar>" by simp
  also have "\<dots> = \<bar>of_int m * s - \<bar>x\<bar>\<bar>"
    using False by (simp add: abs_mult)
  also have "\<dots> = s * \<bar>of_int m - \<bar>x\<bar> / s\<bar>"
  proof -
    have "of_int m * s - \<bar>x\<bar> = s * (of_int m - \<bar>x\<bar> / s)"
      using s by (simp add: field_simps)
    then show ?thesis using s by (simp add: abs_mult)
  qed
  also have "\<dots> \<le> s * (1/2)"
    using s roundTiesToEven_error[of "\<bar>x\<bar> / s"] unfolding m_def
    by (intro mult_left_mono) auto
  also have "\<dots> \<le> \<bar>x\<bar> / 2 ^ 53"
    using sx by (simp add: field_simps)
  finally show ?thesis .
qed

lemma fl_between:
  assumes "0 \<le> l" "l \<le> x" "x \<le> h"
  shows "l * (1 - 1 / 2 ^ 53) \<le> fl x" and "fl x \<le> h * (1 + 1 / 2 ^ 53)"
proof -
  have x: "0 \<le> x" using assms by simp
  have "\<bar>fl x - x\<bar> \<le> x / 2 ^ 53" using fl_error[of x] x by simp
  then have e: "x - fl x \<le> x / 2 ^ 53" "fl x - x \<le> x / 2 ^ 53" by linarith+
  have "l * (1 - 1 / 2 ^ 53) \<le> x * (1 - 1 / 2 ^ 53)"
    using assms by (intro mult_right_mono) auto
  also have "\<dots> \<le> fl x" using e(1) by (simp add: algebra_simps)
  finally show "l * (1 - 1 / 2 ^ 53) \<le> fl x" .
  have "fl x \<le> x * (1 + 1 / 2 ^ 53)" using e(2) by (simp add: algebra_simps)
  also have "\<dots> \<le> h * (1 + 1 / 2 ^ 53)"
    using assms by (intro mult_right_mono) auto
  finally show "fl x \<le> h * (1 + 1 / 2 ^ 53)" .
qed

lemma fl_nonneg: "0 \<le> x \<Longrightarrow> 0 \<le> fl x"
  using fl_between(1)[of 0 x x] by simp

lemma Math_round_error: "\<bar>of_int (Math_round t) - t\<bar> \<le> 1/2"
proof -
  have "of_int \<lfloor>t + 1/2\<rfloor> \<le> t + 1/2" "t + 1/2 < of_int \<lfloor>t + 1/2\<rfloor> + 1" by linarith+
  then show ?thesis unfolding Math_round_def by linarith
qed

text \<open>
  The four operations that compute ten times the new mean of \<open>addRating\<close> lose at
  most \<open>1 / 10 ^ 13\<close> against the exact value.
\<close>

lemma add_scaled_bounds:
  fixes m :: rat and c r :: int
  assumes m: "0 \<le> m" "m \<le> 5" and c: "0 \<le> c" and r: "1 \<le> r" "r \<le> 5"
  defines "E \<equiv> (m * of_int c + of_int r) / of_int (c + 1)"
  defines "t \<equiv> fmul (fdiv (fadd (fmul m (of_int c)) (of_int r)) (of_int (c + 1))) 10"
  shows "\<bar>t - 10 * E\<bar> \<le> 1 / 10 ^ 13" and "0 \<le> E" and "E \<le> 5"
proof -
  define lo :: rat where "lo = 1 - 1 / 2 ^ 53"
  define hi :: rat where "hi = 1 + 1 / 2 ^ 53"
  define S where "S = m * of_int c + of_int r"
  define tr :: rat where "tr = of_int (c + 1)"
  have lo: "0 \<le> lo" "lo \<le> 1" and hi: "1 \<le> hi" unfolding lo_def hi_def by simp_all
  have tr: "1 \<le> tr" using c unfolding tr_def by simp
  have mc: "0 \<le> m * of_int c" using m c by simp
  have rr: "(1::rat) \<le> of_int r" "(of_int r :: rat) \<le> 5" using r by simp_all
  have S0: "0 \<le> S" using mc rr unfolding S_def by simp
  have "m * of_int c \<le> 5 * of_int c" using m c by (intro mult_right_mono) auto
  then have S5: "S \<le> 5 * tr" using rr unfolding S_def tr_def by simp
  have E: "E = S / tr" unfolding E_def S_def tr_def ..
  have E0: "0 \<le> E" unfolding E using S0 tr by simp
  have E5: "E \<le> 5" unfolding E using S5 tr by (simp add: field_simps)
  define a where "a = fmul m (of_int c)"
  define b where "b = fadd a (of_int r)"
  define q where "q = fdiv b tr"
  have t: "t = fmul q 10" unfolding t_def q_def b_def a_def tr_def ..
  have a: "m * of_int c * lo \<le> a" "a \<le> m * of_int c * hi"
    unfolding a_def fmul_def lo_def hi_def using fl_between[OF mc order_refl order_refl] by auto
  have "of_int r * lo \<le> (of_int r :: rat)" using lo rr by (simp add: mult_left_le)
  then have ar_lo: "S * lo \<le> a + of_int r" using a(1) unfolding S_def by (simp add: algebra_simps)
  have "(of_int r :: rat) \<le> of_int r * hi" using hi rr by (simp add: mult_le_cancel_left1)
  then have ar_hi: "a + of_int r \<le> S * hi" using a(2) unfolding S_def by (simp add: algebra_simps)
  have Slo: "0 \<le> S * lo" using S0 lo by simp
  have b: "S * lo * lo \<le> b" "b \<le> S * hi * hi"
    unfolding b_def fadd_def using fl_between[OF Slo ar_lo ar_hi] unfolding lo_def hi_def by auto
  have bq_lo: "E * lo * lo \<le> b / tr" using b(1) tr unfolding E by (simp add: field_simps)
  have bq_hi: "b / tr \<le> E * hi * hi" using b(2) tr unfolding E by (simp add: field_simps)
  have Elo: "0 \<le> E * lo * lo" using E0 lo by simp
  have q: "E * lo * lo * lo \<le> q" "q \<le> E * hi * hi * hi"
    unfolding q_def fdiv_def using fl_between[OF Elo bq_lo bq_hi] unfolding lo_def hi_def by auto
  have q10_lo: "10 * E * lo * lo * lo \<le> q * 10" using q(1) by (simp add: algebra_simps)
  have q10_hi: "q * 10 \<le> 10 * E * hi * hi * hi" using q(2) by (simp add: algebra_simps)
  have E10lo: "0 \<le> 10 * E * lo * lo * lo" using E0 lo by simp
  have tb: "10 * E * lo * lo * lo * lo \<le> t" "t \<le> 10 * E * hi * hi * hi * hi"
    unfolding t fmul_def using fl_between[OF E10lo q10_lo q10_hi] unfolding lo_def hi_def by auto
  have "10 * E - t \<le> 10 * E * (1 - lo * lo * lo * lo)" using tb(1) by (simp add: algebra_simps)
  also have "\<dots> \<le> 10 * 5 * (1 - lo * lo * lo * lo)"
    using E5 E0 lo by (intro mult_right_mono mult_left_mono) (auto simp: lo_def)
  also have "\<dots> \<le> 1 / 10 ^ 13" unfolding lo_def by simp
  finally have low: "10 * E - t \<le> 1 / 10 ^ 13" .
  have "t - 10 * E \<le> 10 * E * (hi * hi * hi * hi - 1)" using tb(2) by (simp add: algebra_simps)
  also have "\<dots> \<le> 10 * 5 * (hi * hi * hi * hi - 1)"
    using E5 E0 hi by (intro mult_right_mono mult_left_mono) (auto simp: hi_def)
  also have "\<dots> \<le> 1 / 10 ^ 13" unfolding hi_def by simp
  finally have high: "t - 10 * E \<le> 1 / 10 ^ 13" .
  show "\<bar>t - 10 * E\<bar> \<le> 1 / 10 ^ 13" using low high by linarith
  show "0 \<le> E" "E \<le> 5" by (rule E0, rule E5)
qed

lemma fl_5: "fl 5 = 5"
  by (simp add: fl_def ilog2_def roundTiesToEven_def Let_def bitlen_numeral floor_numeral_div)

lemma fl_tenths_le_5:
  assumes "0 \<le> k" "k \<le> 50"
  shows "0 \<le> fl (of_int k / 10)" and "fl (of_int k / 10) \<le> 5"
proof -
  show "0 \<le> fl (of_int k / 10)" using assms by (intro fl_nonneg) simp
  show "fl (of_int k / 10) \<le> 5"
  proof (cases "k = 50")
    case True
    then show ?thesis by (simp add: fl_5)
  next
    case False
    then have "k \<le> 49" using assms by simp
    then have "(of_int k :: rat) \<le> 49" by (metis of_int_le_iff of_int_numeral)
    then have "(of_int k :: rat) / 10 \<le> 49 / 10" by simp
    moreover have "(0::rat) \<le> of_int k / 10" using assms by simp
    ultimately have "fl (of_int k / 10) \<le> 49 / 10 * (1 + 1 / 2 ^ 53)"
      by (intro fl_between(2)[of 0]) auto
    also have "\<dots> \<le> 5" by simp
    finally show ?thesis .
  qed
qed

lemma fl_error_le:
  assumes "\<bar>x\<bar> \<le> B"
  shows "\<bar>fl x - x\<bar> \<le> B / 2 ^ 53"
proof -
  have "\<bar>fl x - x\<bar> \<le> \<bar>x\<bar> / 2 ^ 53" by (rule fl_error)
  also have "\<dots> \<le> B / 2 ^ 53" using assms by (simp add: divide_right_mono)
  finally show ?thesis .
qed

text \<open>
  The four operations that compute ten times the new mean of \<open>removeRating\<close>, for a
  count \<open>c + 1\<close> above 1, lose at most \<open>1 / 10 ^ 13\<close> against the exact value.
\<close>

lemma remove_scaled_bounds:
  fixes m :: rat and c r :: int
  assumes m: "0 \<le> m" "m \<le> 5" and c: "1 \<le> c" and r: "1 \<le> r" "r \<le> 5"
  defines "R \<equiv> (m * of_int (c + 1) - of_int r) / of_int c"
  defines "t \<equiv> fmul (fdiv (fsub (fmul m (of_int (c + 1))) (of_int r)) (of_int c)) 10"
  shows "\<bar>t - 10 * R\<bar> \<le> 1 / 10 ^ 13" and "\<bar>R\<bar> \<le> 15"
proof -
  define u :: rat where "u = 1 / 2 ^ 53"
  define n :: rat where "n = of_int (c + 1)"
  define cc :: rat where "cc = of_int c"
  have u: "0 < u" "u \<le> 1 / 1000" unfolding u_def by simp_all
  have cc: "1 \<le> cc" using c unfolding cc_def by simp
  have n: "n = cc + 1" unfolding n_def cc_def by simp
  have n2: "n \<le> 2 * cc" "2 \<le> n" using cc n by simp_all
  have rr: "(1::rat) \<le> of_int r" "(of_int r :: rat) \<le> 5" using r by simp_all
  define A where "A = m * n"
  define a where "a = fl A"
  define B where "B = a - of_int r"
  define b where "b = fl B"
  define Q where "Q = b / cc"
  define q where "q = fl Q"
  define T where "T = q * 10"
  have t: "t = fl T"
    unfolding t_def T_def q_def Q_def b_def B_def a_def A_def fmul_def fdiv_def fsub_def n_def cc_def ..
  have R: "R = (A - of_int r) / cc" unfolding R_def A_def n_def cc_def ..
  have A0: "0 \<le> A" unfolding A_def using m n2 by simp
  have "m * n \<le> 5 * n" using m n2 by (intro mult_right_mono) auto
  then have A5: "A \<le> 5 * n" unfolding A_def .
  have A10: "A \<le> 10 * cc" using A5 n2 by linarith
  have ea: "\<bar>a - A\<bar> \<le> 10 * cc * u"
    unfolding a_def u_def using fl_error_le[of A "10 * cc"] A0 A10 by simp
  have "10 * cc * u \<le> cc" using u cc by (simp add: mult_le_cancel_left1)
  then have aB: "\<bar>a\<bar> \<le> 11 * cc" using ea A0 A10 by linarith
  have Bb: "\<bar>B\<bar> \<le> 16 * cc" unfolding B_def using aB rr cc by linarith
  have eb: "\<bar>b - B\<bar> \<le> 16 * cc * u"
    unfolding b_def u_def using fl_error_le[OF Bb] by simp
  have "\<bar>b - (A - of_int r)\<bar> \<le> 26 * cc * u" using ea eb unfolding B_def by linarith
  then have ebA: "\<bar>b - (A - of_int r)\<bar> \<le> 26 * u * cc" by (simp add: ac_simps)
  have "Q - R = (b - (A - of_int r)) / cc" unfolding Q_def R by (simp add: diff_divide_distrib)
  then have "\<bar>Q - R\<bar> = \<bar>b - (A - of_int r)\<bar> / cc" using cc by simp
  also have "\<dots> \<le> 26 * u" using cc ebA by (simp add: pos_divide_le_eq)
  finally have eQ: "\<bar>Q - R\<bar> \<le> 26 * u" .
  have AR: "\<bar>A - of_int r\<bar> \<le> 15 * cc" using A0 A10 rr cc by linarith
  have "\<bar>R\<bar> = \<bar>A - of_int r\<bar> / cc" unfolding R using cc by simp
  also have "\<dots> \<le> 15" using cc AR by (simp add: pos_divide_le_eq)
  finally have R15: "\<bar>R\<bar> \<le> 15" .
  have Q16: "\<bar>Q\<bar> \<le> 16" using eQ R15 u by linarith
  have eq: "\<bar>q - Q\<bar> \<le> 16 * u" unfolding q_def u_def using fl_error_le[OF Q16] by simp
  have q17: "\<bar>q\<bar> \<le> 17" using eq Q16 u by linarith
  have T170: "\<bar>T\<bar> \<le> 170" unfolding T_def using q17 by simp
  have et: "\<bar>t - T\<bar> \<le> 170 * u" unfolding t u_def using fl_error_le[OF T170] by simp
  have "\<bar>t - 10 * R\<bar> \<le> 590 * u" using et eq eQ unfolding T_def by linarith
  also have "\<dots> \<le> 1 / 10 ^ 13" unfolding u_def by simp
  finally show "\<bar>t - 10 * R\<bar> \<le> 1 / 10 ^ 13" .
  show "\<bar>R\<bar> \<le> 15" by (rule R15)
qed


text \<open>The updates of POST and PUT for a rating that is a Number.\<close>

lemma addRating_number:
  "addRating doc (JNumber x) =
     (if totalRatings doc + 1 = 0 then None
      else saveDoctor (doc\<lparr> rating := roundRating
                 (fdiv (fadd (fmul (rating doc) (of_int (totalRatings doc))) x)
                       (of_int (totalRatings doc + 1))),
               totalRatings := totalRatings doc + 1 \<rparr>))"
  by (simp add: addRating_def jsDivide_def jsPlus_def ToNumber_def Let_def)

lemma updateRating_number:
  "updateRating doc old (JNumber x) =
     (if totalRatings doc = 0 then None
      else saveDoctor (doc\<lparr> rating := roundRating
                 (fdiv (fadd (fsub (fmul (rating doc) (of_int (totalRatings doc))) (of_int old)) x)
                       (of_int (totalRatings doc))) \<rparr>))"
  by (simp add: updateRating_def jsDivide_def jsPlus_def ToNumber_def Let_def)

text \<open>
  What \<open>addRating\<close> stores, for an aggregate in range and a rating from 1 to 5 that
  is a Number.
\<close>

lemma addRating_rounds:
  assumes "0 \<le> rating doc" and "rating doc \<le> 5" and "0 \<le> totalRatings doc"
    and "1 \<le> r" and "r \<le> 5"
  shows "\<exists>k. 0 \<le> k \<and> k \<le> 50
          \<and> addRating doc (JNumber (of_int r))
              = Some (doc\<lparr> rating := fl (of_int k / 10), totalRatings := totalRatings doc + 1 \<rparr>)
          \<and> \<bar>of_int k / 10
                - (rating doc * of_int (totalRatings doc) + of_int r) / of_int (totalRatings doc + 1)\<bar>
              \<le> 1 / 20 + 1 / 10 ^ 14"
proof -
  define c where "c = totalRatings doc"
  define E where "E = (rating doc * of_int c + of_int r) / of_int (c + 1)"
  define t where "t = fmul (fdiv (fadd (fmul (rating doc) (of_int c)) (of_int r)) (of_int (c + 1))) 10"
  define k where "k = Math_round t"
  have tE: "\<bar>t - 10 * E\<bar> \<le> 1 / 10 ^ 13" and E: "0 \<le> E" "E \<le> 5"
    using add_scaled_bounds[OF assms(1,2) assms(3)[folded c_def] assms(4,5)]
    unfolding t_def E_def by auto
  have kt: "\<bar>of_int k - t\<bar> \<le> 1/2" unfolding k_def by (rule Math_round_error)
  have kE: "\<bar>of_int k - 10 * E\<bar> \<le> 1/2 + 1 / 10 ^ 13" using tE kt by linarith
  then have near: "\<bar>of_int k / 10 - E\<bar> \<le> 1 / 20 + 1 / 10 ^ 14"
    by (simp add: abs_le_iff field_simps)
  have small: "(1::rat) / 10 ^ 13 \<le> 1 / 4" by simp
  have "of_int k - 10 * E \<le> 1/2 + 1 / 10 ^ 13" "10 * E - of_int k \<le> 1/2 + 1 / 10 ^ 13"
    using kE unfolding abs_le_iff by simp_all
  then have "- 1 < (of_int k :: rat)" "(of_int k :: rat) < 51" using small E by linarith+
  then have "- 1 < k" "k < 51" by simp_all
  then have k: "0 \<le> k" "k \<le> 50" by linarith+
  have c1: "c + 1 \<noteq> 0" using assms(3) unfolding c_def by simp
  have "addRating doc (JNumber (of_int r))
          = saveDoctor (doc\<lparr> rating := fl (of_int k / 10), totalRatings := c + 1 \<rparr>)"
    using c1 unfolding addRating_number roundRating_def k_def t_def c_def fdiv_def by simp
  also have "\<dots> = Some (doc\<lparr> rating := fl (of_int k / 10), totalRatings := c + 1 \<rparr>)"
    using fl_tenths_le_5[OF k] by (simp add: saveDoctor_def)
  finally have "addRating doc (JNumber (of_int r))
     = Some (doc\<lparr> rating := fl (of_int k / 10), totalRatings := totalRatings doc + 1 \<rparr>)"
    unfolding c_def .
  with k near show ?thesis unfolding E_def c_def by blast
qed

lemma saveDoctor_Some:
  "saveDoctor doc = Some doc' \<longleftrightarrow> doc' = doc \<and> 0 \<le> rating doc \<and> rating doc \<le> 5"
  by (auto simp: saveDoctor_def)

text \<open>
  Adding a rating and removing it again, for a doctor with ratings before: the mean
  comes back to within 0.15 of the mean before.
\<close>

lemma add_remove_mean:
  assumes m: "0 \<le> rating doc" "rating doc \<le> 5" and c: "1 \<le> totalRatings doc"
    and r: "1 \<le> r" "r \<le> 5"
    and add: "addRating doc (JNumber (of_int r)) = Some doc1"
    and rem: "removeRating doc1 r = Some doc2"
  shows "\<bar>rating doc2 - rating doc\<bar> \<le> 3 / 20 + 1 / 10 ^ 13"
proof -
  define c' where "c' = totalRatings doc"
  define cc :: rat where "cc = of_int c'"
  define n :: rat where "n = of_int (c' + 1)"
  define u :: rat where "u = 1 / 2 ^ 53"
  define E where "E = (rating doc * cc + of_int r) / n"
  have c0: "0 \<le> totalRatings doc" using c by simp
  from addRating_rounds[OF m c0 r] add obtain k1 where k1: "0 \<le> k1" "k1 \<le> 50"
    and doc1: "doc1 = doc\<lparr> rating := fl (of_int k1 / 10), totalRatings := c' + 1 \<rparr>"
    and near1: "\<bar>of_int k1 / 10 - E\<bar> \<le> 1 / 20 + 1 / 10 ^ 14"
    unfolding E_def cc_def n_def c'_def by auto
  define m1 where "m1 = fl (of_int k1 / 10)"
  have m1: "0 \<le> m1" "m1 \<le> 5" unfolding m1_def using fl_tenths_le_5[OF k1] by auto
  have c'1: "1 \<le> c'" using c unfolding c'_def .
  define R where "R = (m1 * of_int (c' + 1) - of_int r) / of_int c'"
  define t where "t = fmul (fdiv (fsub (fmul m1 (of_int (c' + 1))) (of_int r)) (of_int c')) 10"
  define k2 where "k2 = Math_round t"
  have tR: "\<bar>t - 10 * R\<bar> \<le> 1 / 10 ^ 13" and R15: "\<bar>R\<bar> \<le> 15"
    using remove_scaled_bounds[OF m1 c'1 r] unfolding t_def R_def by auto
  have "removeRating doc1 r
          = saveDoctor (doc1\<lparr> rating := fl (of_int k2 / 10), totalRatings := c' \<rparr>)"
    using c'1 unfolding removeRating_def Let_def roundRating_def k2_def t_def doc1 m1_def fdiv_def
    by simp
  with rem have m2: "rating doc2 = fl (of_int k2 / 10)" by (auto simp: saveDoctor_Some)
  have kt: "\<bar>of_int k2 - t\<bar> \<le> 1/2" unfolding k2_def by (rule Math_round_error)
  have e13: "(1::rat) / 10 ^ 13 = 1 / 10000000000000"
    and e14: "(1::rat) / 10 ^ 14 = 1 / 100000000000000" by simp_all
  have u: "0 < u" "u \<le> 1 / 1000000000000000" unfolding u_def by simp_all
  have k2R: "\<bar>of_int k2 / 10 - R\<bar> \<le> 1 / 20 + 1 / 100000000000000"
    using kt tR unfolding e13 by linarith
  have k2b: "\<bar>of_int k2 / 10 :: rat\<bar> \<le> 16" using k2R R15 by linarith
  have e2: "\<bar>rating doc2 - of_int k2 / 10\<bar> \<le> 16 * u"
    unfolding m2 u_def using fl_error_le[OF k2b] by simp
  have k1b: "\<bar>of_int k1 / 10 :: rat\<bar> \<le> 5" using k1 by simp
  have e1: "\<bar>m1 - of_int k1 / 10\<bar> \<le> 5 * u"
    unfolding m1_def u_def using fl_error_le[OF k1b] by simp
  have eta: "\<bar>m1 - E\<bar> \<le> 1 / 20 + 1 / 100000000000000 + 5 * u"
    using e1 near1 unfolding e14 by linarith
  have cc: "1 \<le> cc" using c'1 unfolding cc_def by simp
  have n: "n = cc + 1" unfolding n_def cc_def by simp
  have En: "E * n = rating doc * cc + of_int r" unfolding E_def using cc n by simp
  have Rcc: "R * cc = m1 * n - of_int r"
    unfolding R_def n_def[symmetric] cc_def[symmetric] using cc by simp
  have "(R - rating doc) * cc = (m1 - E) * n" using En Rcc by (simp add: algebra_simps)
  then have "R - rating doc = (m1 - E) * n / cc"
    using cc by (simp add: nonzero_eq_divide_eq)
  then have "\<bar>R - rating doc\<bar> = \<bar>m1 - E\<bar> * (n / cc)"
    using cc n by (simp add: abs_mult)
  also have "\<dots> \<le> \<bar>m1 - E\<bar> * 2"
    using cc n by (intro mult_left_mono) (simp_all add: field_simps)
  finally have Rm: "\<bar>R - rating doc\<bar> \<le> 2 * \<bar>m1 - E\<bar>" by simp
  have tri: "\<And>a b c p q :: rat. \<bar>a - b\<bar> \<le> p \<Longrightarrow> \<bar>b - c\<bar> \<le> q \<Longrightarrow> \<bar>a - c\<bar> \<le> p + q"
    by linarith
  have "\<And>x y :: rat. x \<le> 2 * y \<Longrightarrow> y \<le> 1 / 20 + 1 / 100000000000000 + 5 * u
          \<Longrightarrow> x \<le> 1 / 10 + 1 / 50000000000000 + 10 * u"
    by linarith
  from this[OF Rm eta]
  have Rm': "\<bar>R - rating doc\<bar> \<le> 1 / 10 + 1 / 50000000000000 + 10 * u" .
  have "\<And>x :: rat. x \<le> 16 * u + (1 / 20 + 1 / 100000000000000)
            + (1 / 10 + 1 / 50000000000000 + 10 * u)
          \<Longrightarrow> u \<le> 1 / 1000000000000000 \<Longrightarrow> x \<le> 3 / 20 + 1 / 10000000000000"
    by linarith
  from this[OF tri[OF tri[OF e2 k2R] Rm'] u(2)]
  have "\<bar>rating doc2 - rating doc\<bar> \<le> 3 / 20 + 1 / 10000000000000" .
  then show ?thesis unfolding e13 .
qed

section \<open>The rating aggregate\<close>

text \<open>
  A rating sent as a string is left as a string by the routes, and the sum of the
  POST route concatenates. Doctor 2 has the ratings 4, 4 and 5, the mean 4.3 and the
  count 3. A fourth feedback with \<open>"rating": "5"\<close> is accepted and stored with the
  rating 5; the route computes \<open>12.899999999999999 + "5"\<close>, divides the string
  \<open>"12.8999999999999995"\<close> by 4, and stores the mean 3.2 with the count 4, where
  the numeric sum gives 4.5. Removing the rating 5 again from mean 3.2 and count 4
  leaves the mean 2.6 with the count 3.
\<close>

lemma string_rating_concatenated:
  "map_option (\<lambda>doc. (rating doc, totalRatings doc))
       (doctors (foldl serveFeedback visitedDb
                   [rate 1 (JNumber 4), rate 2 (JNumber 4), rate 3 (JNumber 5)]) 2)
     = Some (fl (43 / 10), 3)
   \<and> jsPlus (fmul (fl (43 / 10)) 3) (JString ''5'') = JString ''12.8999999999999995''
   \<and> (let d = foldl serveFeedback visitedDb
                 [rate 1 (JNumber 4), rate 2 (JNumber 4), rate 3 (JNumber 5),
                  rate 4 (JString ''5'')]
       in (map_option (\<lambda>doc. (rating doc, totalRatings doc)) (doctors d 2),
           map fbRating (feedbacks d)))
     = (Some (fl (32 / 10), 4), [4, 4, 5, 5])
   \<and> removeRating (doctorProfile\<lparr> rating := fl (32 / 10), totalRatings := 4 \<rparr>) 5
     = Some (doctorProfile\<lparr> rating := fl (26 / 10), totalRatings := 3 \<rparr>)"
  by (simp add: rate_def patient1_def
        visitedDb_def completedVisit_def exampleDb_def patientAccount_def doctorAccount_def doctorProfile_def
        submitFeedback_def authorize_def isInt_def castRating_def findAppointment_def freshId_def validFeedback_def
        addRating_def jsDivide_def jsPlus_def ToNumber_def saveDoctor_def roundRating_def fmul_def fadd_def fdiv_def Math_round_def
        removeRating_def fsub_def
        Number_toString_def decimalOf_def candidate_def render_def ilog10_def digitsOf.simps
        StringToNumber_def unsignedDecimal_def exponentValue_def unsigned_def signOf_def isSign_def
        isDigit_def digitValue_def decimalValue_def trim_def isWhiteSpace_def
        fl_def ilog2_def roundTiesToEven_def Let_def bitlen_numeral floor_numeral_div
        cong: let_weak_cong)

text \<open>
  The claim of C7 as stated fails. Doctor 2 has the ratings 1, 1 and 2 (given as 1,
  1 and 3, the third changed to 2), the stored mean 1.4 and the count 3. A fourth
  rating of 4 stores the mean 2.1: the exact quotient (oldMean * 3 + 4) / 4 of
  the stored Number 1.4 lies below 2.05, nearer to 2.0 than to 2.1. Read on the
  decimal 1.4 the quotient is 2.05, the midpoint of 2.0 and 2.1, and the upper tenth
  is stored; but a fourth rating of 2, whose quotient on the decimal 1.4 is 1.55,
  the midpoint of 1.5 and 1.6, stores the lower tenth 1.5. No rounding rule for the
  quotient gives both.
\<close>

theorem addRating_rounding_counterexample:
  "map_option (\<lambda>doc. (rating doc, totalRatings doc))
       (doctors (foldl serveFeedback visitedDb
                   [rate 1 (JNumber 1), rate 2 (JNumber 1), rate 3 (JNumber 3),
                    rerate 3 (JNumber 2)]) 2)
     = Some (fl (14 / 10), 3)
   \<and> map_option (\<lambda>doc. (rating doc, totalRatings doc))
       (doctors (foldl serveFeedback visitedDb
                   [rate 1 (JNumber 1), rate 2 (JNumber 1), rate 3 (JNumber 3),
                    rerate 3 (JNumber 2), rate 4 (JNumber 4)]) 2)
     = Some (fl (21 / 10), 4)
   \<and> addRating (doctorProfile\<lparr> rating := fl (14 / 10), totalRatings := 3 \<rparr>) (JNumber 4)
     = Some (doctorProfile\<lparr> rating := fl (21 / 10), totalRatings := 4 \<rparr>)
   \<and> \<bar>20 / 10 - (fl (14 / 10) * 3 + 4) / 4\<bar> < \<bar>21 / 10 - (fl (14 / 10) * 3 + 4) / 4\<bar>
   \<and> (14 / 10 * 3 + 4) / 4 = (41 / 20 :: rat)
   \<and> addRating (doctorProfile\<lparr> rating := fl (14 / 10), totalRatings := 3 \<rparr>) (JNumber 2)
     = Some (doctorProfile\<lparr> rating := fl (15 / 10), totalRatings := 4 \<rparr>)
   \<and> (14 / 10 * 3 + 2) / 4 = (31 / 20 :: rat)
   \<and> fl (14 / 10) = 3152519739159347 / 2 ^ 51
   \<and> fl (21 / 10) = 4728779608739021 / 2 ^ 51
   \<and> fl (15 / 10) = 3 / 2"
  by (simp add: rate_def rerate_def patient1_def
        visitedDb_def completedVisit_def exampleDb_def patientAccount_def doctorAccount_def doctorProfile_def
        submitFeedback_def authorize_def isInt_def castRating_def findAppointment_def freshId_def validFeedback_def
        updateFeedback_def findFeedback_def strictlyDiffers_def
        addRating_def jsDivide_def jsPlus_def ToNumber_def saveDoctor_def roundRating_def fmul_def fadd_def fdiv_def Math_round_def
        updateRating_def fsub_def
        fl_def ilog2_def roundTiesToEven_def Let_def bitlen_numeral floor_numeral_div
        cong: let_weak_cong)

text \<open>
  C7, amended. For a doctor whose mean is within the schema's range from 0 to 5 and
  whose count is not negative, and for a rating from 1 to 5 that the request gives
  as a JSON number, \<open>addRating\<close> is accepted, sets the count to the old count plus
  one, and sets the mean to a value with one decimal place: to the Number nearest to
  \<open>k / 10\<close> for an integer \<open>k\<close>, where \<open>k / 10\<close> is within \<open>0.05 + 1 / 10 ^ 14\<close> of
  the exact quotient (oldMean * oldCount + r) / (oldCount + 1). So \<open>k / 10\<close> is a
  tenth nearest to the quotient up to \<open>2 / 10 ^ 14\<close>: it is the quotient rounded to
  one decimal place, except that for a quotient within \<open>1 / 10 ^ 14\<close> of the midpoint
  of two tenths either of the two may be stored. It rounds once, after the division.
  In particular a doctor with mean 4 and count 2 who receives the rating 5 has the
  mean 4.3 afterwards, the Number \<open>4841369599423283 / 2 ^ 50\<close>. (What the route
  stores for a rating given as a JSON string is not part of this statement.)
\<close>

theorem addRating_spec:
  assumes "0 \<le> rating doc" and "rating doc \<le> 5" and "0 \<le> totalRatings doc"
    and "1 \<le> r" and "r \<le> 5"
  shows "(\<exists>k. addRating doc (JNumber (of_int r))
              = Some (doc\<lparr> rating := fl (of_int k / 10), totalRatings := totalRatings doc + 1 \<rparr>)
            \<and> \<bar>of_int k / 10
                - (rating doc * of_int (totalRatings doc) + of_int r) / of_int (totalRatings doc + 1)\<bar>
              \<le> 1 / 20 + 1 / 10 ^ 14
            \<and> (\<forall>j. \<bar>of_int k / 10
                - (rating doc * of_int (totalRatings doc) + of_int r) / of_int (totalRatings doc + 1)\<bar>
              \<le> \<bar>of_int j / 10
                - (rating doc * of_int (totalRatings doc) + of_int r) / of_int (totalRatings doc + 1)\<bar>
                + 2 / 10 ^ 14))
   \<and> addRating (doc\<lparr> rating := 4, totalRatings := 2 \<rparr>) (JNumber 5)
       = Some (doc\<lparr> rating := fl (43 / 10), totalRatings := 3 \<rparr>)
   \<and> fl (43 / 10) = 4841369599423283 / 2 ^ 50"
proof -
  define q where
    "q = (rating doc * of_int (totalRatings doc) + of_int r) / of_int (totalRatings doc + 1)"
  have v: "fl (43 / 10) = 4841369599423283 / 2 ^ 50"
    by (simp add: fl_def ilog2_def roundTiesToEven_def Let_def bitlen_numeral floor_numeral_div)
  have "roundRating (fdiv (fadd (fmul 4 2) 5) 3) = 4841369599423283 / 2 ^ 50"
    by (simp add: roundRating_def fmul_def fadd_def fdiv_def Math_round_def
          fl_def ilog2_def roundTiesToEven_def Let_def bitlen_numeral floor_numeral_div
          cong: let_weak_cong)
  then have ex: "addRating (doc\<lparr> rating := 4, totalRatings := 2 \<rparr>) (JNumber 5)
       = Some (doc\<lparr> rating := fl (43 / 10), totalRatings := 3 \<rparr>)"
    unfolding v by (simp add: addRating_number saveDoctor_def)
  from addRating_rounds[OF assms] obtain k where
    k: "addRating doc (JNumber (of_int r))
          = Some (doc\<lparr> rating := fl (of_int k / 10), totalRatings := totalRatings doc + 1 \<rparr>)"
    and near: "\<bar>of_int k / 10 - q\<bar> \<le> 1 / 20 + 1 / 10 ^ 14"
    unfolding q_def by blast
  have nearest: "\<bar>of_int k / 10 - q\<bar> \<le> \<bar>of_int j / 10 - q\<bar> + 2 / 10 ^ 14" for j :: int
  proof (cases "j = k")
    case True
    then show ?thesis by simp
  next
    case False
    then have "j \<le> k - 1 \<or> k + 1 \<le> j" by linarith
    then have "(of_int j :: rat) \<le> of_int k - 1 \<or> (of_int k :: rat) + 1 \<le> of_int j"
      by (metis of_int_1 of_int_add of_int_diff of_int_le_iff)
    then have far: "1 / 10 \<le> \<bar>of_int j / 10 - of_int k / (10 :: rat)\<bar>" by linarith
    have e14: "(1::rat) / 10 ^ 14 = 1 / 100000000000000"
      and e14': "(2::rat) / 10 ^ 14 = 2 / 100000000000000" by simp_all
    show ?thesis using far near unfolding e14 e14' by linarith
  qed
  from k near nearest ex v show ?thesis unfolding q_def by blast
qed

text \<open>
  The run for C7: the doctor with mean 4 and count 2 receives the rating 5.
\<close>

theorem addRating_spec_witness:
  "0 \<le> rating (doctorProfile\<lparr> rating := 4, totalRatings := 2 \<rparr>)
   \<and> rating (doctorProfile\<lparr> rating := 4, totalRatings := 2 \<rparr>) \<le> 5
   \<and> 0 \<le> totalRatings (doctorProfile\<lparr> rating := 4, totalRatings := 2 \<rparr>)
   \<and> (1::int) \<le> 5 \<and> (5::int) \<le> 5
   \<and> addRating (doctorProfile\<lparr> rating := 4, totalRatings := 2 \<rparr>) (JNumber 5)
       = Some (doctorProfile\<lparr> rating := 4841369599423283 / 2 ^ 50, totalRatings := 3 \<rparr>)"
proof -
  have h: "0 \<le> rating (doctorProfile\<lparr> rating := 4, totalRatings := 2 \<rparr>)"
    "rating (doctorProfile\<lparr> rating := 4, totalRatings := 2 \<rparr>) \<le> 5"
    "0 \<le> totalRatings (doctorProfile\<lparr> rating := 4, totalRatings := 2 \<rparr>)"
    "(1::int) \<le> 5" "(5::int) \<le> 5"
    by simp_all
  from addRating_spec[OF h] h show ?thesis by simp
qed

text \<open>
  The claim of C8 as stated fails. Doctor 2 has three ratings of 4: mean 4, count 3.
  Patient 1 rates a fourth visit with 5 and deletes that feedback at once: the count
  is 3 again, and the mean is 4.1. On the aggregate: adding 5 to (4, 3) gives
  (4.3, 4), the exact 4.25 rounded up, and removing 5 from (4.3, 4) gives
  (4.1, 3), the exact 4.0666 rounded. The Number 4.3 is
  \<open>4841369599423283 / 2 ^ 50\<close> and the Number 4.1 is \<open>4616189618054758 / 2 ^ 50\<close>.
\<close>

theorem add_remove_counterexample:
  "map_option (\<lambda>doc. (rating doc, totalRatings doc))
       (doctors (foldl serveFeedback visitedDb
                   [rate 1 (JNumber 4), rate 2 (JNumber 4), rate 3 (JNumber 4)]) 2)
     = Some (4, 3)
   \<and> map_option (\<lambda>doc. (rating doc, totalRatings doc))
       (doctors (foldl serveFeedback visitedDb
                   [rate 1 (JNumber 4), rate 2 (JNumber 4), rate 3 (JNumber 4),
               rate 4 (JNumber 5), Delete patient1 4]) 2)
     = Some (4616189618054758 / 2 ^ 50, 3)
   \<and> addRating (doctorProfile\<lparr> rating := 4, totalRatings := 3 \<rparr>) (JNumber 5)
     = Some (doctorProfile\<lparr> rating := 4841369599423283 / 2 ^ 50, totalRatings := 4 \<rparr>)
   \<and> removeRating (doctorProfile\<lparr> rating := 4841369599423283 / 2 ^ 50, totalRatings := 4 \<rparr>) 5
     = Some (doctorProfile\<lparr> rating := 4616189618054758 / 2 ^ 50, totalRatings := 3 \<rparr>)
   \<and> fl (41 / 10) = 4616189618054758 / 2 ^ 50"
  by (simp add: rate_def patient1_def
        visitedDb_def completedVisit_def exampleDb_def patientAccount_def doctorAccount_def doctorProfile_def
        submitFeedback_def authorize_def isInt_def castRating_def strictlyDiffers_def findAppointment_def freshId_def
        validFeedback_def
        deleteFeedback_def authorize_def findFeedback_def
        addRating_def jsDivide_def jsPlus_def ToNumber_def saveDoctor_def roundRating_def fmul_def fadd_def fdiv_def Math_round_def
        removeRating_def fsub_def
        fl_def ilog2_def roundTiesToEven_def Let_def bitlen_numeral floor_numeral_div
        cong: let_weak_cong)

text \<open>
  C8, amended. For a doctor whose mean is within 0 and 5 and whose count is not
  negative, and every rating \<open>r\<close> from 1 to 5 that the request gives as a JSON
  number: if \<open>addRating\<close> of \<open>r\<close> and the \<open>removeRating\<close> of \<open>r\<close> that follows it at
  once are both accepted, the count is the count before, and so is everything but
  the mean; the mean is 0 again when the doctor had no rating before, and with
  ratings before it is within \<open>0.15 + 1 / 10 ^ 13\<close> of the mean before (and need not
  be equal to it). (What happens for a rating given as a JSON string is not part of
  this statement.)
\<close>

theorem add_remove_restores:
  assumes "0 \<le> rating doc" and "rating doc \<le> 5" and "0 \<le> totalRatings doc"
    and "1 \<le> r" and "r \<le> 5"
    and "addRating doc (JNumber (of_int r)) = Some doc1"
    and "removeRating doc1 r = Some doc2"
  shows "totalRatings doc2 = totalRatings doc
    \<and> doc2 = doc\<lparr> rating := rating doc2 \<rparr>
    \<and> (totalRatings doc = 0 \<longrightarrow> rating doc2 = 0)
    \<and> (1 \<le> totalRatings doc \<longrightarrow> \<bar>rating doc2 - rating doc\<bar> \<le> 3 / 20 + 1 / 10 ^ 13)"
proof -
  have "totalRatings doc2 = totalRatings doc \<and> doc2 = doc\<lparr> rating := rating doc2 \<rparr>
        \<and> (totalRatings doc = 0 \<longrightarrow> rating doc2 = 0)"
    using assms(3,6,7)
    by (auto simp: addRating_number removeRating_def Let_def saveDoctor_Some split: if_splits)
  moreover have "1 \<le> totalRatings doc \<longrightarrow> \<bar>rating doc2 - rating doc\<bar> \<le> 3 / 20 + 1 / 10 ^ 13"
    using add_remove_mean[OF assms(1,2) _ assms(4-7)] by blast
  ultimately show ?thesis by blast
qed

text \<open>
  The runs for C8: adding and removing the rating 5 on mean 4 and count 3, and on a
  doctor without ratings.
\<close>

theorem add_remove_restores_witness:
  "0 \<le> rating (doctorProfile\<lparr> rating := 4, totalRatings := 3 \<rparr>)
   \<and> rating (doctorProfile\<lparr> rating := 4, totalRatings := 3 \<rparr>) \<le> 5
   \<and> 0 \<le> totalRatings (doctorProfile\<lparr> rating := 4, totalRatings := 3 \<rparr>)
   \<and> (1::int) \<le> 5 \<and> (5::int) \<le> 5
   \<and> addRating (doctorProfile\<lparr> rating := 4, totalRatings := 3 \<rparr>) (JNumber 5)
       = Some (doctorProfile\<lparr> rating := 4841369599423283 / 2 ^ 50, totalRatings := 4 \<rparr>)
   \<and> removeRating (doctorProfile\<lparr> rating := 4841369599423283 / 2 ^ 50, totalRatings := 4 \<rparr>) 5
       = Some (doctorProfile\<lparr> rating := 4616189618054758 / 2 ^ 50, totalRatings := 3 \<rparr>)
   \<and> totalRatings (doctorProfile\<lparr> rating := 4616189618054758 / 2 ^ 50, totalRatings := 3 \<rparr>)
       = totalRatings (doctorProfile\<lparr> rating := 4, totalRatings := 3 \<rparr>)
   \<and> \<bar>rating (doctorProfile\<lparr> rating := 4616189618054758 / 2 ^ 50, totalRatings := 3 \<rparr>)
        - rating (doctorProfile\<lparr> rating := 4, totalRatings := 3 \<rparr>)\<bar> \<le> 3 / 20 + 1 / 10 ^ 13
   \<and> 0 \<le> rating doctorProfile \<and> rating doctorProfile \<le> 5 \<and> totalRatings doctorProfile = 0
   \<and> addRating doctorProfile (JNumber 5) = Some (doctorProfile\<lparr> rating := 5, totalRatings := 1 \<rparr>)
   \<and> removeRating (doctorProfile\<lparr> rating := 5, totalRatings := 1 \<rparr>) 5 = Some doctorProfile"
proof -
  have h: "0 \<le> rating (doctorProfile\<lparr> rating := 4, totalRatings := 3 \<rparr>)"
    "rating (doctorProfile\<lparr> rating := 4, totalRatings := 3 \<rparr>) \<le> 5"
    "0 \<le> totalRatings (doctorProfile\<lparr> rating := 4, totalRatings := 3 \<rparr>)"
    "(1::int) \<le> 5" "(5::int) \<le> 5"
    by simp_all
  have a: "addRating (doctorProfile\<lparr> rating := 4, totalRatings := 3 \<rparr>) (JNumber 5)
       = Some (doctorProfile\<lparr> rating := 4841369599423283 / 2 ^ 50, totalRatings := 4 \<rparr>)"
    by (simp add: addRating_def jsDivide_def jsPlus_def ToNumber_def saveDoctor_def roundRating_def fmul_def fadd_def fdiv_def Math_round_def
          fl_def ilog2_def roundTiesToEven_def Let_def bitlen_numeral floor_numeral_div
          cong: let_weak_cong)
  have b: "removeRating (doctorProfile\<lparr> rating := 4841369599423283 / 2 ^ 50, totalRatings := 4 \<rparr>) 5
       = Some (doctorProfile\<lparr> rating := 4616189618054758 / 2 ^ 50, totalRatings := 3 \<rparr>)"
    by (simp add: removeRating_def saveDoctor_def roundRating_def fmul_def fsub_def fdiv_def Math_round_def
          fl_def ilog2_def roundTiesToEven_def Let_def bitlen_numeral floor_numeral_div
          cong: let_weak_cong)
  have c: "1 \<le> totalRatings (doctorProfile\<lparr> rating := 4, totalRatings := 3 \<rparr>)" by simp
  have a': "addRating (doctorProfile\<lparr> rating := 4, totalRatings := 3 \<rparr>) (JNumber (of_int 5))
       = Some (doctorProfile\<lparr> rating := 4841369599423283 / 2 ^ 50, totalRatings := 4 \<rparr>)"
    using a by simp
  from add_remove_restores[OF h a' b] c
  have n: "totalRatings (doctorProfile\<lparr> rating := 4616189618054758 / 2 ^ 50, totalRatings := 3 \<rparr>)
       = totalRatings (doctorProfile\<lparr> rating := 4, totalRatings := 3 \<rparr>)
   \<and> \<bar>rating (doctorProfile\<lparr> rating := 4616189618054758 / 2 ^ 50, totalRatings := 3 \<rparr>)
        - rating (doctorProfile\<lparr> rating := 4, totalRatings := 3 \<rparr>)\<bar> \<le> 3 / 20 + 1 / 10 ^ 13"
    by blast
  have h0: "0 \<le> rating doctorProfile" "rating doctorProfile \<le> 5" "0 \<le> totalRatings doctorProfile"
    and z: "totalRatings doctorProfile = 0"
    by (simp_all add: doctorProfile_def)
  have a0: "addRating doctorProfile (JNumber 5) = Some (doctorProfile\<lparr> rating := 5, totalRatings := 1 \<rparr>)"
    by (simp add: doctorProfile_def
          addRating_def jsDivide_def jsPlus_def ToNumber_def saveDoctor_def roundRating_def fmul_def fadd_def fdiv_def Math_round_def
          fl_def ilog2_def roundTiesToEven_def Let_def bitlen_numeral floor_numeral_div
          cong: let_weak_cong)
  have b0: "removeRating (doctorProfile\<lparr> rating := 5, totalRatings := 1 \<rparr>) 5 = Some doctorProfile"
    by (simp add: doctorProfile_def removeRating_def saveDoctor_def)
  have a0': "addRating doctorProfile (JNumber (of_int 5))
       = Some (doctorProfile\<lparr> rating := 5, totalRatings := 1 \<rparr>)"
    using a0 by simp
  from add_remove_restores[OF h0 h(4,5) a0' b0] z
  have "rating doctorProfile = 0" by blast
  with h a b n h0 z a0 b0 show ?thesis by blast
qed

text \<open>
  The claim of C9 as stated fails. Doctor 2 starts without ratings. Patient 1 rates
  three visits with 1, 1 and 2, changes ratings nine times and deletes two of the
  three feedbacks. Every request is accepted, one feedback with the rating 1 is
  left, and the doctor's mean is 0 with the count 1. The stored means along the run
  are 1, 1, 1.3, 1.6, 1.9, 2.2, 2.5, 2.8, 2.1, 2.4, 2.7, 2, 1.5 and 0.
\<close>

theorem rating_zero_counterexample:
  "map_option (\<lambda>doc. (rating doc, totalRatings doc)) (doctors visitedDb 2) = Some (0, 0)
   \<and> map_option (\<lambda>doc. (rating doc, totalRatings doc))
        (doctors (foldl serveFeedback visitedDb driftRequests) 2) = Some (0, 1)
   \<and> map fbRating (feedbacks (foldl serveFeedback visitedDb driftRequests)) = [1]"
  by (simp add: driftRequests_def rate_def rerate_def patient1_def
        visitedDb_def completedVisit_def exampleDb_def patientAccount_def doctorAccount_def doctorProfile_def
        submitFeedback_def authorize_def isInt_def castRating_def strictlyDiffers_def findAppointment_def freshId_def
        validFeedback_def
        updateFeedback_def authorize_def isInt_def castRating_def strictlyDiffers_def findFeedback_def validFeedback_def
        deleteFeedback_def authorize_def findFeedback_def
        addRating_def jsDivide_def jsPlus_def ToNumber_def updateRating_def jsDivide_def jsPlus_def ToNumber_def removeRating_def saveDoctor_def roundRating_def
        fmul_def fadd_def fsub_def fdiv_def Math_round_def
        fl_def ilog2_def roundTiesToEven_def Let_def bitlen_numeral floor_numeral_div
        cong: let_weak_cong)

lemma addRating_inRange:
  "0 \<le> totalRatings doc \<Longrightarrow> addRating doc v = Some doc' \<Longrightarrow> aggregateInRange doc'"
  by (auto simp: addRating_def Let_def saveDoctor_Some split: option.splits)

lemma updateRating_inRange:
  "0 < totalRatings doc \<Longrightarrow> updateRating doc old v = Some doc' \<Longrightarrow> aggregateInRange doc'"
  by (auto simp: updateRating_def Let_def saveDoctor_Some split: option.splits)

lemma removeRating_inRange:
  "aggregateInRange doc \<Longrightarrow> removeRating doc r = Some doc' \<Longrightarrow> aggregateInRange doc'"
  by (auto simp: removeRating_def Let_def saveDoctor_Some split: if_splits)

text \<open>What a feedback request can do to the doctors collection.\<close>

lemma submit_doctors:
  "doctors (snd (submitFeedback d u body)) = doctors d
   \<or> (\<exists>k doc v doc'. doctors d k = Some doc \<and> addRating doc v = Some doc'
         \<and> doctors (snd (submitFeedback d u body)) = (doctors d)(k \<mapsto> doc'))"
  by (simp add: submitFeedback_def Let_def split: option.splits if_splits) blast

lemma update_doctors:
  "doctors (snd (updateFeedback d u f body)) = doctors d
   \<or> (\<exists>k doc old r doc'. doctors d k = Some doc \<and> 0 < totalRatings doc
         \<and> updateRating doc old r = Some doc'
         \<and> doctors (snd (updateFeedback d u f body)) = (doctors d)(k \<mapsto> doc'))"
  by (simp add: updateFeedback_def Let_def split: option.splits if_splits) blast

lemma delete_doctors:
  "doctors (snd (deleteFeedback d u f)) = doctors d
   \<or> (\<exists>k doc r doc'. doctors d k = Some doc \<and> removeRating doc r = Some doc'
         \<and> doctors (snd (deleteFeedback d u f)) = (doctors d)(k \<mapsto> doc'))"
  by (simp add: deleteFeedback_def split: option.splits if_splits) blast

lemma submit_inRange:
  assumes inv: "\<forall>i doc. doctors d i = Some doc \<longrightarrow> aggregateInRange doc"
    and j: "doctors (snd (submitFeedback d u body)) j = Some doc'"
  shows "aggregateInRange doc'"
proof -
  from submit_doctors[of d u body] consider
      "doctors (snd (submitFeedback d u body)) = doctors d"
    | k doc v doc'' where "doctors d k = Some doc" "addRating doc v = Some doc''"
        "doctors (snd (submitFeedback d u body)) = (doctors d)(k \<mapsto> doc'')"
    by blast
  then show ?thesis
  proof cases
    case 1
    with inv j show ?thesis by simp
  next
    case 2
    from inv 2(1) have "0 \<le> totalRatings doc" by blast
    from addRating_inRange[OF this 2(2)] inv j 2(3) show ?thesis
      by (cases "j = k") simp_all
  qed
qed

lemma update_inRange:
  assumes inv: "\<forall>i doc. doctors d i = Some doc \<longrightarrow> aggregateInRange doc"
    and j: "doctors (snd (updateFeedback d u f body)) j = Some doc'"
  shows "aggregateInRange doc'"
proof -
  from update_doctors[of d u f body] consider
      "doctors (snd (updateFeedback d u f body)) = doctors d"
    | k doc old r doc'' where "doctors d k = Some doc" "0 < totalRatings doc"
        "updateRating doc old r = Some doc''"
        "doctors (snd (updateFeedback d u f body)) = (doctors d)(k \<mapsto> doc'')"
    by blast
  then show ?thesis
  proof cases
    case 1
    with inv j show ?thesis by simp
  next
    case 2
    from updateRating_inRange[OF 2(2,3)] inv j 2(4) show ?thesis
      by (cases "j = k") simp_all
  qed
qed

lemma delete_inRange:
  assumes inv: "\<forall>i doc. doctors d i = Some doc \<longrightarrow> aggregateInRange doc"
    and j: "doctors (snd (deleteFeedback d u f)) j = Some doc'"
  shows "aggregateInRange doc'"
proof -
  from delete_doctors[of d u f] consider
      "doctors (snd (deleteFeedback d u f)) = doctors d"
    | k doc r doc'' where "doctors d k = Some doc" "removeRating doc r = Some doc''"
        "doctors (snd (deleteFeedback d u f)) = (doctors d)(k \<mapsto> doc'')"
    by blast
  then show ?thesis
  proof cases
    case 1
    with inv j show ?thesis by simp
  next
    case 2
    from inv 2(1) have "aggregateInRange doc" by blast
    from removeRating_inRange[OF this 2(2)] inv j 2(3) show ?thesis
      by (cases "j = k") simp_all
  qed
qed

lemma serve_inRange:
  assumes "\<forall>i doc. doctors d i = Some doc \<longrightarrow> aggregateInRange doc"
  shows "\<forall>i doc. doctors (serveFeedback d q) i = Some doc \<longrightarrow> aggregateInRange doc"
proof (cases q)
  case (Submit u body)
  then show ?thesis using submit_inRange[OF assms] by auto
next
  case (Update u f body)
  then show ?thesis using update_inRange[OF assms] by auto
next
  case (Delete u f)
  then show ?thesis using delete_inRange[OF assms] by auto
qed

lemma serve_all_inRange:
  "\<forall>i doc. doctors d i = Some doc \<longrightarrow> aggregateInRange doc
   \<Longrightarrow> \<forall>i doc. doctors (foldl serveFeedback d qs) i = Some doc \<longrightarrow> aggregateInRange doc"
proof (induction qs arbitrary: d)
  case Nil
  then show ?case by simp
next
  case (Cons q qs)
  from Cons.IH[OF serve_inRange[OF Cons.prems]] show ?case by simp
qed

text \<open>
  C9, amended. After any sequence of feedback requests (submit, update, delete) on a
  database in which every doctor's aggregate is in range, every doctor's stored mean
  lies within 0 and 5, the stored count is not negative, and the mean is 0 when the
  count is 0. (A mean of 0 with a count above 0 is reachable.)
\<close>

theorem rating_bounds:
  assumes "\<forall>i doc. doctors d0 i = Some doc \<longrightarrow>
             0 \<le> rating doc \<and> rating doc \<le> 5 \<and> 0 \<le> totalRatings doc
             \<and> (totalRatings doc = 0 \<longrightarrow> rating doc = 0)"
    and "doctors (foldl serveFeedback d0 qs) i = Some doc"
  shows "0 \<le> rating doc \<and> rating doc \<le> 5 \<and> 0 \<le> totalRatings doc
         \<and> (totalRatings doc = 0 \<longrightarrow> rating doc = 0)"
  using serve_all_inRange[OF assms(1)] assms(2) by blast

text \<open>
  The run for C9: the five requests of the run for C8, from doctor 2 without ratings.
\<close>

theorem rating_bounds_witness:
  "doctors (foldl serveFeedback visitedDb
              [rate 1 (JNumber 4), rate 2 (JNumber 4), rate 3 (JNumber 4),
               rate 4 (JNumber 5), Delete patient1 4]) 2
       = Some (doctorProfile\<lparr> rating := 4616189618054758 / 2 ^ 50, totalRatings := 3 \<rparr>)
   \<and> 0 \<le> rating (doctorProfile\<lparr> rating := 4616189618054758 / 2 ^ 50, totalRatings := 3 \<rparr>)
   \<and> rating (doctorProfile\<lparr> rating := 4616189618054758 / 2 ^ 50, totalRatings := 3 \<rparr>) \<le> 5
   \<and> 0 \<le> totalRatings (doctorProfile\<lparr> rating := 4616189618054758 / 2 ^ 50, totalRatings := 3 \<rparr>)"
proof -
  have h: "\<forall>i doc. doctors visitedDb i = Some doc \<longrightarrow>
             0 \<le> rating doc \<and> rating doc \<le> 5 \<and> 0 \<le> totalRatings doc
             \<and> (totalRatings doc = 0 \<longrightarrow> rating doc = 0)"
    by (simp add: visitedDb_def completedVisit_def exampleDb_def patientAccount_def doctorAccount_def doctorProfile_def)
  have r: "doctors (foldl serveFeedback visitedDb
                 [rate 1 (JNumber 4), rate 2 (JNumber 4), rate 3 (JNumber 4),
               rate 4 (JNumber 5), Delete patient1 4]) 2
       = Some (doctorProfile\<lparr> rating := 4616189618054758 / 2 ^ 50, totalRatings := 3 \<rparr>)"
    by (simp add: rate_def patient1_def
          visitedDb_def completedVisit_def exampleDb_def patientAccount_def doctorAccount_def doctorProfile_def
          submitFeedback_def authorize_def isInt_def castRating_def strictlyDiffers_def findAppointment_def freshId_def
        validFeedback_def
          deleteFeedback_def authorize_def findFeedback_def
          addRating_def jsDivide_def jsPlus_def ToNumber_def saveDoctor_def roundRating_def fmul_def fadd_def fdiv_def Math_round_def
          removeRating_def fsub_def
          fl_def ilog2_def roundTiesToEven_def Let_def bitlen_numeral floor_numeral_div
          cong: let_weak_cong)
  from rating_bounds[OF h r] r show ?thesis by blast
qed

end
